theory Spec2Isabelle
  imports Complex_Main "HOL-Library.Word" "HOL-Library.Sublist"
begin

section \<open>Strings and values of the host language\<close>

text \<open>
  A string of the source language is a sequence of 16-bit code units. \<open>js\<close> embeds
  an ASCII literal. The white space set is the one shared by the regular
  expression class \<^verbatim>\<open>\s\<close> and by \<^verbatim>\<open>String.prototype.trim\<close>: the WhiteSpace
  and LineTerminator code points of the language standard.
\<close>

type_synonym jschar = "16 word"
type_synonym jsstring = "jschar list"

definition js :: "string \<Rightarrow> jsstring" where
  "js s = map of_char s"

definition isWs :: "jschar \<Rightarrow> bool" where
  "isWs c \<longleftrightarrow>
     c = 0x09 \<or> c = 0x0A \<or> c = 0x0B \<or> c = 0x0C \<or> c = 0x0D \<or> c = 0x20 \<or>
     c = 0xA0 \<or> c = 0x1680 \<or> (0x2000 \<le> c \<and> c \<le> 0x200A) \<or>
     c = 0x2028 \<or> c = 0x2029 \<or> c = 0x202F \<or> c = 0x205F \<or> c = 0x3000 \<or>
     c = 0xFEFF"

text \<open>\<^verbatim>\<open>s.trim()\<close>: white space removed at both ends.\<close>

definition trim :: "jsstring \<Rightarrow> jsstring" where
  "trim s = rev (dropWhile isWs (rev (dropWhile isWs s)))"

text \<open>\<^verbatim>\<open>s.trim() !== ""\<close>\<close>

definition nonBlank :: "jsstring \<Rightarrow> bool" where
  "nonBlank s \<longleftrightarrow> trim s \<noteq> []"

text \<open>
  Decimal rendering of an integer, as a template literal renders a number that is
  an integer (identifiers of the API are integers far below \<open>10^21\<close>, where the
  language switches to exponent notation).
\<close>

fun digitsOf :: "nat \<Rightarrow> jsstring" where
  "digitsOf n =
     (if n < 10 then [of_nat (48 + n)]
      else digitsOf (n div 10) @ [of_nat (48 + n mod 10)])"

declare digitsOf.simps [simp del]

definition numToString :: "int \<Rightarrow> jsstring" where
  "numToString i = (if i < 0 then js ''-'' @ digitsOf (nat (- i)) else digitsOf (nat i))"

text \<open>
  The only exception the formatter can raise is the TypeError of a property read
  on \<^verbatim>\<open>null\<close> or \<^verbatim>\<open>undefined\<close>.
\<close>

datatype error = TypeError

text \<open>
  \<^verbatim>\<open>{ name: string; id?: number }\<close>, the entity that \<open>extractPeople\<close> builds, and the
  values an element of the array given to \<open>formatArray\<close> can have at run time.
\<close>

record entity =
  e_name :: jsstring
  e_id :: "int option"

datatype item = Null | Undefined | Str jsstring | Obj entity

section \<open>DataFormatter: the formatting engine\<close>

definition MAX_ARRAY_ITEMS :: nat where
  "MAX_ARRAY_ITEMS = 50"

definition MAX_FACTS_COUNT :: nat where
  "MAX_FACTS_COUNT = 5"

datatype FormatType =
  SHORT_VALUE | LONG_TEXT | URL | LINK | LINK_WITH_PATH | LINK_ID_WITH_PATH

text \<open>
  \<^verbatim>\<open>cleanTextForMetadata(text)\<close>: the empty string for a falsy text, else every
  colon removed and the result trimmed.
\<close>

definition cleanTextForMetadata :: "jsstring \<Rightarrow> jsstring" where
  "cleanTextForMetadata text =
     (if text = [] then [] else trim (filter (\<lambda>c. c \<noteq> 0x3A) text))"

text \<open>
  \<^verbatim>\<open>.replace(/\s+/g, " ")\<close>: every maximal run of white space becomes one space.
\<close>

function collapseWs :: "jsstring \<Rightarrow> jsstring" where
  "collapseWs [] = []"
| "collapseWs (c # cs) =
     (if isWs c then 0x20 # collapseWs (dropWhile isWs cs) else c # collapseWs cs)"
  by pat_completeness auto
termination
  by (relation "measure length") (auto simp: length_dropWhile_le less_Suc_eq_le)

text \<open>The LONG_TEXT cleaning chain: newlines to spaces, runs collapsed, trimmed.\<close>

definition cleanLongText :: "jsstring \<Rightarrow> jsstring" where
  "cleanLongText item =
     trim (collapseWs (map (\<lambda>c. if c = 0x0A then 0x20 else c) item))"

text \<open>\<^verbatim>\<open>folderPath && folderPath.trim() !== ""\<close>\<close>

definition pathGiven :: "jsstring option \<Rightarrow> bool" where
  "pathGiven folderPath \<longleftrightarrow>
     (case folderPath of None \<Rightarrow> False | Some p \<Rightarrow> p \<noteq> [] \<and> nonBlank p)"

text \<open>
  The callback of the LINK_ID_WITH_PATH branch. \<^verbatim>\<open>item.id\<close> is tested for
  truthiness, so an id of 0 counts as no id.
\<close>

definition renderIdLink :: "jsstring option \<Rightarrow> entity \<Rightarrow> jsstring" where
  "renderIdLink folderPath item =
     (let cleanName = cleanTextForMetadata (e_name item) in
      case e_id item of
        Some i \<Rightarrow>
          if pathGiven folderPath \<and> i \<noteq> 0 then
            js ''\"[['' @ the folderPath @ js ''/'' @ numToString i @ js ''|'' @ cleanName @ js '']]\"''
          else if i \<noteq> 0 then
            js ''\"[['' @ numToString i @ js ''|'' @ cleanName @ js '']]\"''
          else js ''\"[['' @ cleanName @ js '']]\"''
      | None \<Rightarrow> js ''\"[['' @ cleanName @ js '']]\"'')"

text \<open>The callbacks of the \<^verbatim>\<open>switch\<close> over the other format types.\<close>

fun renderString :: "FormatType \<Rightarrow> jsstring option \<Rightarrow> jsstring \<Rightarrow> jsstring" where
  "renderString SHORT_VALUE folderPath item = cleanTextForMetadata item"
| "renderString LONG_TEXT folderPath item = js ''\"'' @ cleanLongText item @ js ''\"''"
| "renderString URL folderPath item = trim item"
| "renderString LINK folderPath item = js ''\"[['' @ cleanTextForMetadata item @ js '']]\"''"
| "renderString LINK_WITH_PATH folderPath item =
     (if pathGiven folderPath then
        js ''\"[['' @ the folderPath @ js ''/'' @ cleanTextForMetadata item @ js '']]\"''
      else js ''\"[['' @ cleanTextForMetadata item @ js '']]\"'')"
| "renderString LINK_ID_WITH_PATH folderPath item = item"

text \<open>
  The filter of the LINK_ID_WITH_PATH branch,
  \<^verbatim>\<open>item.name && item.name.trim() !== ""\<close>: the property read raises on
  \<^verbatim>\<open>null\<close> and \<^verbatim>\<open>undefined\<close>, a string has no \<^verbatim>\<open>name\<close> and is dropped.
  The result lists the entities kept.
\<close>

fun keepNamed :: "item list \<Rightarrow> error + entity list" where
  "keepNamed [] = Inr []"
| "keepNamed (Null # xs) = Inl TypeError"
| "keepNamed (Undefined # xs) = Inl TypeError"
| "keepNamed (Str s # xs) = keepNamed xs"
| "keepNamed (Obj e # xs) =
     (case keepNamed xs of
        Inl err \<Rightarrow> Inl err
      | Inr es \<Rightarrow> Inr (if e_name e \<noteq> [] \<and> nonBlank (e_name e) then e # es else es))"

text \<open>
  The projection to strings of the other branches,
  \<^verbatim>\<open>typeof item === 'object' && item.name ? item.name : item\<close>:
  \<^verbatim>\<open>typeof null\<close> is \<^verbatim>\<open>'object'\<close>, so the property read raises on \<^verbatim>\<open>null\<close>.
\<close>

fun stringItems :: "item list \<Rightarrow> error + item list" where
  "stringItems [] = Inr []"
| "stringItems (Null # xs) = Inl TypeError"
| "stringItems (Obj e # xs) =
     (case stringItems xs of
        Inl err \<Rightarrow> Inl err
      | Inr ys \<Rightarrow> Inr ((if e_name e \<noteq> [] then Str (e_name e) else Obj e) # ys))"
| "stringItems (x # xs) =
     (case stringItems xs of Inl err \<Rightarrow> Inl err | Inr ys \<Rightarrow> Inr (x # ys))"

text \<open>\<^verbatim>\<open>typeof item === 'string' && item.trim() !== ""\<close>, as a filter to strings.\<close>

fun filteredItems :: "item list \<Rightarrow> jsstring list" where
  "filteredItems [] = []"
| "filteredItems (Str s # xs) = (if nonBlank s then s # filteredItems xs else filteredItems xs)"
| "filteredItems (x # xs) = filteredItems xs"

text \<open>
  \<open>formatArray\<close>. \<open>maxItems\<close> is a count; every call in the repository leaves
  it at its default \<open>MAX_ARRAY_ITEMS\<close>.
\<close>

definition formatArray ::
  "item list \<Rightarrow> FormatType \<Rightarrow> jsstring option \<Rightarrow> nat \<Rightarrow> error + jsstring list" where
  "formatArray items formatType folderPath maxItems =
     (if formatType = LINK_ID_WITH_PATH then
        (case keepNamed items of
           Inl err \<Rightarrow> Inl err
         | Inr personItems \<Rightarrow> Inr (map (renderIdLink folderPath) (take maxItems personItems)))
      else
        (case stringItems items of
           Inl err \<Rightarrow> Inl err
         | Inr strs \<Rightarrow>
             Inr (map (renderString formatType folderPath) (take maxItems (filteredItems strs)))))"

section \<open>Season aggregation\<close>

record KinopoiskSeasonInfo =
  s_number :: int
  episodesCount :: int

record seasonsData =
  count :: int
  averageEpisodesPerSeason :: int

text \<open>
  \<open>calculateSeasonsData\<close>: \<^verbatim>\<open>reduce\<close> sums the episode counts from 0, and
  \<^verbatim>\<open>Math.ceil\<close> rounds the quotient up. Episode counts are integers, and the
  quotient is taken exactly.
\<close>

definition calculateSeasonsData :: "KinopoiskSeasonInfo list option \<Rightarrow> seasonsData" where
  "calculateSeasonsData seasonsInfo =
     (case seasonsInfo of
        None \<Rightarrow> \<lparr>count = 0, averageEpisodesPerSeason = 0\<rparr>
      | Some ss \<Rightarrow>
          if length ss = 0 then \<lparr>count = 0, averageEpisodesPerSeason = 0\<rparr>
          else
            (let totalEpisodes = foldl (\<lambda>total season. total + episodesCount season) 0 ss;
                 averageEpisodes = \<lceil>(of_int totalEpisodes :: rat) / of_nat (length ss)\<rceil>
             in \<lparr>count = int (length ss), averageEpisodesPerSeason = averageEpisodes\<rparr>))"

section \<open>Person grouping\<close>

text \<open>
  \<open>KinopoiskPerson\<close>. The name and the role key are declared as strings and tested
  for presence by \<open>extractPeople\<close>, so they are optional here (\<open>None\<close> is an
  absent or \<^verbatim>\<open>null\<close> property).
\<close>

record KinopoiskPerson =
  p_id :: "int option"
  p_name :: "jsstring option"
  p_enName :: "jsstring option"
  p_description :: "jsstring option"
  p_profession :: "jsstring option"
  p_enProfession :: "jsstring option"
  p_photo :: "jsstring option"

record people =
  g_directors :: "entity list"
  g_actors :: "entity list"
  g_writers :: "entity list"
  g_producers :: "entity list"

text \<open>Truthiness of an optional string: present and not empty.\<close>

definition truthy :: "jsstring option \<Rightarrow> bool" where
  "truthy s \<longleftrightarrow> (case s of None \<Rightarrow> False | Some x \<Rightarrow> x \<noteq> [])"

text \<open>\<^verbatim>\<open>{ name: person.name, id: person.id }\<close>, built once the name is known to be there.\<close>

definition personData :: "KinopoiskPerson \<Rightarrow> entity" where
  "personData person = \<lparr>e_name = the (p_name person), e_id = p_id person\<rparr>"

text \<open>The body of the loop of \<open>extractPeople\<close>: \<^verbatim>\<open>push\<close> appends at the end.\<close>

definition pushPerson :: "people \<Rightarrow> KinopoiskPerson \<Rightarrow> people" where
  "pushPerson result person =
     (if \<not> truthy (p_name person) \<or> \<not> truthy (p_enProfession person) then result
      else
        (let role = the (p_enProfession person)
         in if role = js ''director''
              then result\<lparr>g_directors := g_directors result @ [personData person]\<rparr>
            else if role = js ''actor''
              then result\<lparr>g_actors := g_actors result @ [personData person]\<rparr>
            else if role = js ''writer''
              then result\<lparr>g_writers := g_writers result @ [personData person]\<rparr>
            else if role = js ''producer''
              then result\<lparr>g_producers := g_producers result @ [personData person]\<rparr>
            else result))"

definition extractPeople :: "KinopoiskPerson list \<Rightarrow> people" where
  "extractPeople persons =
     foldl pushPerson \<lparr>g_directors = [], g_actors = [], g_writers = [], g_producers = []\<rparr> persons"

section \<open>Fact filtering\<close>

text \<open>
  \<^verbatim>\<open>text.replace(/<[^>]*>/g, "")\<close>: a \<^verbatim>\<open><\<close> with a \<^verbatim>\<open>>\<close> somewhere after it is
  removed together with everything up to the first such \<^verbatim>\<open>>\<close>.
\<close>

function removeTags :: "jsstring \<Rightarrow> jsstring" where
  "removeTags [] = []"
| "removeTags (c # cs) =
     (if c = 0x3C \<and> 0x3E \<in> set cs then removeTags (tl (dropWhile (\<lambda>x. x \<noteq> 0x3E) cs))
      else c # removeTags cs)"
  by pat_completeness auto
termination
proof (relation "measure length")
  fix c :: jschar and cs :: jsstring
  have "length (tl (dropWhile (\<lambda>x. x \<noteq> 0x3E) cs)) \<le> length cs"
    using length_dropWhile_le [of "\<lambda>x. x \<noteq> 0x3E" cs] by simp
  then show "(tl (dropWhile (\<lambda>x. x \<noteq> 0x3E) cs), c # cs) \<in> measure length"
    by simp
qed simp_all

text \<open>
  \<^verbatim>\<open>text.replace(new RegExp(entity, "g"), char)\<close> for an entity name, which has no
  character special to regular expressions: every occurrence, left to right.
\<close>

function replaceAll :: "jsstring \<Rightarrow> jsstring \<Rightarrow> jsstring \<Rightarrow> jsstring" where
  "replaceAll pat rep [] = []"
| "replaceAll pat rep (c # cs) =
     (if pat \<noteq> [] \<and> take (length pat) (c # cs) = pat
      then rep @ replaceAll pat rep (drop (length pat) (c # cs))
      else c # replaceAll pat rep cs)"
  by pat_completeness auto
termination
  by (relation "measure (\<lambda>(pat, rep, s). length s)") auto

definition HTML_ENTITIES :: "(jsstring \<times> jsstring) list" where
  "HTML_ENTITIES =
     [(js ''&laquo;'', [0xAB]), (js ''&raquo;'', [0xBB]),
      (js ''&ldquo;'', js ''\"''), (js ''&rdquo;'', js ''\"''),
      (js ''&lsquo;'', [0x27]), (js ''&rsquo;'', [0x27]),
      (js ''&quot;'', js ''\"''), (js ''&amp;'', js ''&''),
      (js ''&lt;'', js ''<''), (js ''&gt;'', js ''>''), (js ''&nbsp;'', js '' ''),
      (js ''&ndash;'', [0x2013]), (js ''&mdash;'', [0x2014]), (js ''&hellip;'', [0x2026])]"

text \<open>The class \<^verbatim>\<open>\w\<close>: letters, digits and the underscore.\<close>

definition isWordChar :: "jschar \<Rightarrow> bool" where
  "isWordChar c \<longleftrightarrow>
     (0x30 \<le> c \<and> c \<le> 0x39) \<or> (0x41 \<le> c \<and> c \<le> 0x5A) \<or> (0x61 \<le> c \<and> c \<le> 0x7A) \<or> c = 0x5F"

text \<open>
  \<^verbatim>\<open>cleanText.replace(/&#?\w+;/g, "")\<close>: an ampersand, an optional \<^verbatim>\<open>#\<close>, a run of
  word characters that is not empty and ends at a semicolon.
\<close>

definition entityEnd :: "jsstring \<Rightarrow> jsstring option" where
  "entityEnd cs =
     (let r = (case cs of [] \<Rightarrow> [] | x # xs \<Rightarrow> if x = 0x23 then xs else cs);
          rest = dropWhile isWordChar r
      in if takeWhile isWordChar r \<noteq> [] \<and> rest \<noteq> [] \<and> hd rest = 0x3B
         then Some (tl rest) else None)"

function removeEntities :: "jsstring \<Rightarrow> jsstring" where
  "removeEntities [] = []"
| "removeEntities (c # cs) =
     (if c = 0x26 then
        (case entityEnd cs of
           Some rest \<Rightarrow> removeEntities rest
         | None \<Rightarrow> c # removeEntities cs)
      else c # removeEntities cs)"
  by pat_completeness auto
termination
proof (relation "measure length")
  fix c :: jschar and cs r :: jsstring
  assume a: "entityEnd cs = Some r"
  define q where "q = (case cs of [] \<Rightarrow> [] | x # xs \<Rightarrow> if x = 0x23 then xs else cs)"
  have q: "length q \<le> length cs"
    by (cases cs) (simp_all add: q_def)
  from a have "r = tl (dropWhile isWordChar q)"
    by (simp add: entityEnd_def q_def Let_def split: if_splits)
  moreover have "length (dropWhile isWordChar q) \<le> length q"
    by (rule length_dropWhile_le)
  ultimately show "(r, c # cs) \<in> measure length"
    using q by simp
qed simp_all

definition stripHtmlTags :: "jsstring \<Rightarrow> jsstring" where
  "stripHtmlTags text =
     trim (removeEntities
       (foldl (\<lambda>cleanText (entity, char). replaceAll entity char cleanText)
          (removeTags text) HTML_ENTITIES))"

record KinopoiskFact =
  f_value :: jsstring
  f_type :: jsstring
  f_spoiler :: "bool option"

text \<open>
  \<open>processFacts\<close>:
  \<^verbatim>\<open>!fact.spoiler && fact.value && fact.value.trim() !== ""\<close>, then the first
  \<open>MAX_FACTS_COUNT\<close>, then the tags stripped.
\<close>

definition processFacts :: "KinopoiskFact list \<Rightarrow> jsstring list" where
  "processFacts facts =
     map (\<lambda>fact. stripHtmlTags (f_value fact))
       (take MAX_FACTS_COUNT
          (filter (\<lambda>fact. f_spoiler fact \<noteq> Some True \<and> f_value fact \<noteq> [] \<and> nonBlank (f_value fact))
             facts))"

section \<open>Date normalization\<close>

text \<open>
  A \<^verbatim>\<open>Date\<close> holds a time value, the milliseconds since 1970-01-01T00:00Z, or
  is invalid (\<open>None\<close>). Its calendar is the proleptic Gregorian one.
  \<open>civil\<close> gives the year, month and day of a day number and \<open>MakeDay\<close> the day
  number of a date, as the language standard's \<^verbatim>\<open>YearFromTime\<close>,
  \<^verbatim>\<open>MonthFromTime\<close>, \<^verbatim>\<open>DateFromTime\<close> and \<^verbatim>\<open>MakeDay\<close> do.
\<close>

definition msPerDay :: int where
  "msPerDay = 86400000"

definition civil :: "int \<Rightarrow> int \<times> int \<times> int" where
  "civil z0 =
     (let z = z0 + 719468;
          era = z div 146097;
          doe = z - era * 146097;
          yoe = (doe - doe div 1460 + doe div 36524 - doe div 146096) div 365;
          doy = doe - (365 * yoe + yoe div 4 - yoe div 100);
          mp = (5 * doy + 2) div 153;
          d = doy - (153 * mp + 2) div 5 + 1;
          m = (if mp < 10 then mp + 3 else mp - 9)
      in (yoe + era * 400 + (if m \<le> 2 then 1 else 0), m, d))"

definition MakeDay :: "int \<Rightarrow> int \<Rightarrow> int \<Rightarrow> int" where
  "MakeDay year month day =
     (let y = (if month \<le> 2 then year - 1 else year);
          era = y div 400;
          yoe = y - era * 400;
          doy = (153 * (if month > 2 then month - 3 else month + 9) + 2) div 5 + day - 1;
          doe = yoe * 365 + yoe div 4 - yoe div 100 + doy
      in era * 146097 + doe - 719468)"

definition YearFromTime :: "int \<Rightarrow> int" where
  "YearFromTime t = fst (civil (t div msPerDay))"

definition MonthFromTime :: "int \<Rightarrow> int" where
  "MonthFromTime t = fst (snd (civil (t div msPerDay)))"

definition DateFromTime :: "int \<Rightarrow> int" where
  "DateFromTime t = snd (snd (civil (t div msPerDay)))"

text \<open>A number of at most \<open>w\<close> digits, padded with zeros to \<open>w\<close> digits.\<close>

definition pad :: "nat \<Rightarrow> int \<Rightarrow> jsstring" where
  "pad w n = replicate (w - length (digitsOf (nat n))) 0x30 @ digitsOf (nat n)"

text \<open>
  \<^verbatim>\<open>Date.prototype.toISOString\<close> on a valid time value: four digits for a year
  from 0 to 9999, a sign and six digits for any other.
\<close>

definition toISOString :: "int \<Rightarrow> jsstring" where
  "toISOString t =
     (let y = YearFromTime t;
          ms = t mod msPerDay;
          year = (if 0 \<le> y \<and> y \<le> 9999 then pad 4 y
                  else (if y < 0 then js ''-'' else js ''+'') @ pad 6 \<bar>y\<bar>)
      in year @ js ''-'' @ pad 2 (MonthFromTime t) @ js ''-'' @ pad 2 (DateFromTime t) @
         js ''T'' @ pad 2 (ms div 3600000) @ js '':'' @ pad 2 (ms div 60000 mod 60) @
         js '':'' @ pad 2 (ms div 1000 mod 60) @ js ''.'' @ pad 3 (ms mod 1000) @ js ''Z'')"

text \<open>
  What \<open>formatDate\<close> takes from its host: \<^verbatim>\<open>Date.parse\<close> (\<open>None\<close> is \<^verbatim>\<open>NaN\<close>),
  whose result on a string outside the standard's date format is left to the
  engine, and the offset of local time from UTC at a time value, in
  milliseconds, which \<^verbatim>\<open>getFullYear\<close> reads.
\<close>

record host =
  dateParse :: "jsstring \<Rightarrow> int option"
  localTZA :: "int \<Rightarrow> int"

text \<open>\<^verbatim>\<open>new Date(dateString)\<close>: a time value beyond 8.64e15 ms is invalid.\<close>

definition newDate :: "host \<Rightarrow> jsstring \<Rightarrow> int option" where
  "newDate h dateString =
     (case dateParse h dateString of
        None \<Rightarrow> None
      | Some t \<Rightarrow> if \<bar>t\<bar> > 8640000000000000 then None else Some t)"

definition getFullYear :: "host \<Rightarrow> int \<Rightarrow> int" where
  "getFullYear h t = YearFromTime (t + localTZA h t)"

text \<open>
  \<open>formatDate\<close>. \<^verbatim>\<open>toISOString\<close> raises only on an invalid date, which the
  test before it excludes, so the \<^verbatim>\<open>catch\<close> branch has no case here.
  \<^verbatim>\<open>split("T")[0]\<close> is the text before the first \<^verbatim>\<open>T\<close>.
\<close>

definition formatDate :: "host \<Rightarrow> jsstring option \<Rightarrow> jsstring" where
  "formatDate h dateString =
     (if \<not> truthy dateString then []
      else
        (case newDate h (the dateString) of
           None \<Rightarrow> []
         | Some date \<Rightarrow>
             if getFullYear h date < 1800 \<or> getFullYear h date > 2100 then []
             else takeWhile (\<lambda>c. c \<noteq> 0x54) (toISOString date)))"

text \<open>
  The date-only form \<^verbatim>\<open>YYYY-MM-DD\<close> of the standard's date format, which every
  engine reads as midnight UTC of that day. \<open>isoDateParse\<close> is a \<^verbatim>\<open>Date.parse\<close>
  that accepts this form and nothing else.
\<close>

definition isDigit :: "jschar \<Rightarrow> bool" where
  "isDigit c \<longleftrightarrow> 0x30 \<le> c \<and> c \<le> 0x39"

definition digitsVal :: "jsstring \<Rightarrow> int" where
  "digitsVal s = foldl (\<lambda>a c. 10 * a + (uint c - 48)) 0 s"

definition daysInMonth :: "int \<Rightarrow> int \<Rightarrow> int" where
  "daysInMonth y m =
     (if m = 2 then (if y mod 4 = 0 \<and> (y mod 100 \<noteq> 0 \<or> y mod 400 = 0) then 29 else 28)
      else if m = 4 \<or> m = 6 \<or> m = 9 \<or> m = 11 then 30 else 31)"

definition isoDateParse :: "jsstring \<Rightarrow> int option" where
  "isoDateParse s =
     (if length s = 10 \<and> s ! 4 = 0x2D \<and> s ! 7 = 0x2D \<and>
         list_all isDigit (take 4 s @ take 2 (drop 5 s) @ drop 8 s)
      then
        (let y = digitsVal (take 4 s); m = digitsVal (take 2 (drop 5 s)); d = digitsVal (drop 8 s)
         in if 1 \<le> m \<and> m \<le> 12 \<and> 1 \<le> d \<and> d \<le> daysInMonth y m
            then Some (MakeDay y m d * msPerDay) else None)
      else None)"

text \<open>A host on UTC, and one five hours west of it the year round.\<close>

definition hostUTC :: host where
  "hostUTC = \<lparr>dateParse = isoDateParse, localTZA = (\<lambda>t. 0)\<rparr>"

definition hostWest5 :: host where
  "hostWest5 = \<lparr>dateParse = isoDateParse, localTZA = (\<lambda>t. - 18000000)\<rparr>"

section \<open>The record transformer\<close>

text \<open>
  The parts of \<open>KinopoiskFullInfo\<close> that the fields below are computed from.
  A number of the payload is a rational; an optional property is an option.
\<close>

record KinopoiskRatings =
  r_kp :: "rat option"
  r_imdb :: "rat option"
  r_filmCritics :: "rat option"
  r_russianFilmCritics :: "rat option"
  r_await :: "rat option"

record KinopoiskVotes =
  v_kp :: "rat option"
  v_imdb :: "rat option"
  v_filmCritics :: "rat option"
  v_russianFilmCritics :: "rat option"
  v_await :: "rat option"

record KinopoiskPremiere =
  pr_world :: "jsstring option"
  pr_russia :: "jsstring option"
  pr_digital :: "jsstring option"
  pr_cinema :: "jsstring option"

record KinopoiskDistributors =
  d_distributor :: "jsstring option"
  d_distributorRelease :: "jsstring option"

record KinopoiskFullInfo =
  fi_persons :: "KinopoiskPerson list option"
  fi_seasonsInfo :: "KinopoiskSeasonInfo list option"
  fi_rating :: "KinopoiskRatings option"
  fi_votes :: "KinopoiskVotes option"
  fi_facts :: "KinopoiskFact list option"
  fi_premiere :: "KinopoiskPremiere option"
  fi_distributors :: "KinopoiskDistributors option"

record settings =
  actorsPath :: jsstring
  directorsPath :: jsstring
  writersPath :: jsstring
  producersPath :: jsstring

text \<open>A number of the output: a rational or \<^verbatim>\<open>NaN\<close>.\<close>

datatype jsnumber = Num rat | NaN

text \<open>
  \<^verbatim>\<open>x.toFixed(0)\<close> read back by \<^verbatim>\<open>Number\<close>: the integer nearest to \<open>x\<close>, the one
  further from zero at a tie. On an absent \<open>x\<close> the optional call gives
  \<^verbatim>\<open>undefined\<close>, and \<^verbatim>\<open>Number(undefined)\<close> is \<^verbatim>\<open>NaN\<close>.
\<close>

definition toFixed0 :: "rat \<Rightarrow> int" where
  "toFixed0 x = (if x < 0 then - \<lfloor>- x + 1 / 2\<rfloor> else \<lfloor>x + 1 / 2\<rfloor>)"

definition numberOfToFixed0 :: "rat option \<Rightarrow> jsnumber" where
  "numberOfToFixed0 x = (case x of None \<Rightarrow> NaN | Some v \<Rightarrow> Num (of_int (toFixed0 v)))"

text \<open>\<^verbatim>\<open>x || 0\<close> on an optional number.\<close>

definition orZero :: "rat option \<Rightarrow> jsnumber" where
  "orZero x = (case x of None \<Rightarrow> Num 0 | Some v \<Rightarrow> Num v)"

text \<open>
  The fields of \<open>MovieShow\<close> for the people, the seasons, the ratings and votes,
  the dates and the facts. The other fields of the object that
  \<open>createMovieShowFrom\<close> builds are computed apart from these and are left out.
\<close>

record MovieShow =
  director :: "jsstring list"
  directorsLinks :: "jsstring list"
  directorsLinksWithPath :: "jsstring list"
  directorsIdsWithPath :: "jsstring list"
  actors :: "jsstring list"
  actorsLinks :: "jsstring list"
  actorsLinksWithPath :: "jsstring list"
  actorsIdsWithPath :: "jsstring list"
  writers :: "jsstring list"
  writersLinks :: "jsstring list"
  writersLinksWithPath :: "jsstring list"
  writersIdsWithPath :: "jsstring list"
  producers :: "jsstring list"
  producersLinks :: "jsstring list"
  producersLinksWithPath :: "jsstring list"
  producersIdsWithPath :: "jsstring list"
  seasonsCount :: int
  seriesInSeasonCount :: int
  ratingKp :: jsnumber
  ratingImdb :: jsnumber
  ratingFilmCritics :: jsnumber
  ratingRussianFilmCritics :: jsnumber
  votesKp :: jsnumber
  votesImdb :: jsnumber
  votesFilmCritics :: jsnumber
  votesRussianFilmCritics :: jsnumber
  premiereWorld :: "jsstring list"
  premiereRussia :: "jsstring list"
  premiereDigital :: "jsstring list"
  premiereCinema :: "jsstring list"
  facts :: "jsstring list"
  distributorRelease :: "jsstring list"

text \<open>An exception ends the construction; a value goes on to the next field.\<close>

definition andThen :: "error + 'a \<Rightarrow> ('a \<Rightarrow> error + 'b) \<Rightarrow> error + 'b" where
  "andThen r f = (case r of Inl err \<Rightarrow> Inl err | Inr x \<Rightarrow> f x)"

text \<open>\<^verbatim>\<open>a || b\<close> on strings: \<open>a\<close> unless it is empty.\<close>

definition orElse :: "jsstring \<Rightarrow> jsstring \<Rightarrow> jsstring" where
  "orElse a b = (if a \<noteq> [] then a else b)"

text \<open>
  The element of the array given to \<open>formatArray\<close> for \<open>distributorRelease\<close>:
  \<^verbatim>\<open>this.formatDate(r) || r || ""\<close> with \<open>r\<close> the optional
  \<^verbatim>\<open>fullInfo.distributors?.distributorRelease\<close>.
\<close>

definition distributorReleaseItem :: "host \<Rightarrow> jsstring option \<Rightarrow> jsstring" where
  "distributorReleaseItem h r =
     orElse (formatDate h r) (orElse (case r of None \<Rightarrow> [] | Some x \<Rightarrow> x) [])"

definition createMovieShowFrom ::
  "host \<Rightarrow> settings option \<Rightarrow> KinopoiskFullInfo \<Rightarrow> error + MovieShow" where
  "createMovieShowFrom h st fullInfo =
     (let seasonsData = calculateSeasonsData (fi_seasonsInfo fullInfo);
          people = extractPeople (case fi_persons fullInfo of None \<Rightarrow> [] | Some ps \<Rightarrow> ps);
          factList = processFacts (case fi_facts fullInfo of None \<Rightarrow> [] | Some fs \<Rightarrow> fs);
          rating = fi_rating fullInfo;
          votes = fi_votes fullInfo;
          premiere = fi_premiere fullInfo;
          fmt = (\<lambda>items formatType folderPath. formatArray items formatType folderPath MAX_ARRAY_ITEMS)
      in
      andThen (fmt (map Obj (g_directors people)) SHORT_VALUE None) (\<lambda>o1.
      andThen (fmt (map Obj (g_directors people)) LINK None) (\<lambda>o2.
      andThen (fmt (map Obj (g_directors people)) LINK_WITH_PATH (map_option directorsPath st)) (\<lambda>o3.
      andThen (fmt (map Obj (g_directors people)) LINK_ID_WITH_PATH (map_option directorsPath st)) (\<lambda>o4.
      andThen (fmt (map Obj (g_actors people)) SHORT_VALUE None) (\<lambda>o5.
      andThen (fmt (map Obj (g_actors people)) LINK None) (\<lambda>o6.
      andThen (fmt (map Obj (g_actors people)) LINK_WITH_PATH (map_option actorsPath st)) (\<lambda>o7.
      andThen (fmt (map Obj (g_actors people)) LINK_ID_WITH_PATH (map_option actorsPath st)) (\<lambda>o8.
      andThen (fmt (map Obj (g_writers people)) SHORT_VALUE None) (\<lambda>o9.
      andThen (fmt (map Obj (g_writers people)) LINK None) (\<lambda>o10.
      andThen (fmt (map Obj (g_writers people)) LINK_WITH_PATH (map_option writersPath st)) (\<lambda>o11.
      andThen (fmt (map Obj (g_writers people)) LINK_ID_WITH_PATH (map_option writersPath st)) (\<lambda>o12.
      andThen (fmt (map Obj (g_producers people)) SHORT_VALUE None) (\<lambda>o13.
      andThen (fmt (map Obj (g_producers people)) LINK None) (\<lambda>o14.
      andThen (fmt (map Obj (g_producers people)) LINK_WITH_PATH (map_option producersPath st)) (\<lambda>o15.
      andThen (fmt (map Obj (g_producers people)) LINK_ID_WITH_PATH (map_option producersPath st)) (\<lambda>o16.
      andThen (fmt [Str (formatDate h (Option.bind premiere pr_world))] SHORT_VALUE None) (\<lambda>o17.
      andThen (fmt [Str (formatDate h (Option.bind premiere pr_russia))] SHORT_VALUE None) (\<lambda>o18.
      andThen (fmt [Str (formatDate h (Option.bind premiere pr_digital))] SHORT_VALUE None) (\<lambda>o19.
      andThen (fmt [Str (formatDate h (Option.bind premiere pr_cinema))] SHORT_VALUE None) (\<lambda>o20.
      andThen (fmt (map Str factList) LONG_TEXT None) (\<lambda>o21.
      andThen (fmt [Str (distributorReleaseItem h
                 (Option.bind (fi_distributors fullInfo) d_distributorRelease))] SHORT_VALUE None) (\<lambda>o22.
      Inr \<lparr>director = o1, directorsLinks = o2, directorsLinksWithPath = o3,
           directorsIdsWithPath = o4,
           actors = o5, actorsLinks = o6, actorsLinksWithPath = o7, actorsIdsWithPath = o8,
           writers = o9, writersLinks = o10, writersLinksWithPath = o11,
           writersIdsWithPath = o12,
           producers = o13, producersLinks = o14, producersLinksWithPath = o15,
           producersIdsWithPath = o16,
           seasonsCount = count seasonsData,
           seriesInSeasonCount = averageEpisodesPerSeason seasonsData,
           ratingKp =
             (if Option.bind rating r_kp \<noteq> None \<and> Option.bind rating r_kp \<noteq> Some 0
              then numberOfToFixed0 (Option.bind rating r_kp) else Num 0),
           ratingImdb =
             (if rating \<noteq> None then numberOfToFixed0 (Option.bind rating r_imdb) else Num 0),
           ratingFilmCritics = orZero (Option.bind rating r_filmCritics),
           ratingRussianFilmCritics = orZero (Option.bind rating r_russianFilmCritics),
           votesKp = orZero (Option.bind votes v_kp),
           votesImdb = orZero (Option.bind votes v_imdb),
           votesFilmCritics = orZero (Option.bind votes v_filmCritics),
           votesRussianFilmCritics = orZero (Option.bind votes v_russianFilmCritics),
           premiereWorld = o17, premiereRussia = o18, premiereDigital = o19,
           premiereCinema = o20,
           facts = o21,
           distributorRelease = o22\<rparr>)))))))))))))))))))))))"

section \<open>The provider: search by query\<close>

record KinopoiskImageUrl =
  img_url :: "jsstring option"
  img_previewUrl :: "jsstring option"

record KinopoiskSuggestItem =
  si_id :: int
  si_name :: jsstring
  si_alternativeName :: jsstring
  si_type :: jsstring
  si_year :: int
  si_poster :: "KinopoiskImageUrl option"
  si_rating :: "KinopoiskRatings option"

text \<open>
  \<open>KinopoiskSuggestItemsResponse\<close>; \<open>searchByQuery\<close> tests \<open>docs\<close> for
  presence, so it is optional here.
\<close>

record KinopoiskSuggestItemsResponse =
  docs :: "KinopoiskSuggestItem list option"

text \<open>
  A value of \<^verbatim>\<open>Record<string, string | number>\<close>, and the request given to
  \<^verbatim>\<open>requestUrl\<close>. The address is kept in its parts, the base with the endpoint
  and the query parameters that \<^verbatim>\<open>searchParams.set\<close> stored.
\<close>

datatype paramValue = PStr jsstring | PNum int

record request =
  rq_url :: jsstring
  rq_params :: "(jsstring \<times> jsstring) list"
  rq_method :: jsstring
  rq_headers :: "(jsstring \<times> jsstring) list"

text \<open>The provider throws \<^verbatim>\<open>Error\<close> objects; an error is its message.\<close>

datatype providerError = Error jsstring

text \<open>
  The collaborators of the provider, none of which is part of it: the validator
  (\<open>ApiValidator\<close>), the translations (\<open>t\<close> and \<open>tWithParams\<close> of the i18n
  module, from a key and, for the second, the value of the parameter \<open>query\<close>),
  the error translator (\<open>ErrorHandler.handleApiError\<close>) and the transport
  (\<open>requestUrl\<close>, which gives the decoded body or fails).
\<close>

record ('x, 'a) collaborators =
  isValidToken :: "jsstring \<Rightarrow> bool"
  isValidSearchQuery :: "jsstring \<Rightarrow> bool"
  i18n_t :: "string \<Rightarrow> jsstring"
  i18n_tWithParams :: "string \<Rightarrow> (string \<times> jsstring) list \<Rightarrow> jsstring"
  handleApiError :: "'x \<Rightarrow> providerError"
  requestUrl :: "request \<Rightarrow> 'x + 'a"

definition API_BASE_URL :: jsstring where
  "API_BASE_URL = js ''https://api.kinopoisk.dev/v1.4''"

definition MAX_SEARCH_RESULTS :: int where
  "MAX_SEARCH_RESULTS = 50"

text \<open>\<^verbatim>\<open>url.searchParams.set(key, value)\<close>: replaces the value of a key, or adds it.\<close>

fun setParam :: "jsstring \<Rightarrow> jsstring \<Rightarrow> (jsstring \<times> jsstring) list \<Rightarrow> (jsstring \<times> jsstring) list" where
  "setParam k v [] = [(k, v)]"
| "setParam k v ((k', v') # ps) =
     (if k' = k then (k, v) # filter (\<lambda>(a, b). a \<noteq> k) ps else (k', v') # setParam k v ps)"

text \<open>
  \<open>buildUrl\<close>: a parameter is set unless its value is the empty string
  (\<^verbatim>\<open>undefined\<close> and \<^verbatim>\<open>null\<close> are no values of the record's type).
\<close>

definition buildUrl :: "jsstring \<Rightarrow> (jsstring \<times> paramValue) list \<Rightarrow> jsstring \<times> (jsstring \<times> jsstring) list" where
  "buildUrl endpoint params =
     (API_BASE_URL @ endpoint,
      foldl (\<lambda>acc (key, val).
               case val of
                 PStr v \<Rightarrow> if v \<noteq> [] then setParam key v acc else acc
               | PNum n \<Rightarrow> setParam key (numToString n) acc)
        [] params)"

text \<open>
  \<open>apiGet\<close>, with the requests issued so far as the state: the request is
  appended when \<^verbatim>\<open>requestUrl\<close> is called. The headers given are spread over
  the two fixed ones, a given key replacing the value of a fixed one.
\<close>

definition apiGet ::
  "('x, 'a) collaborators \<Rightarrow> jsstring \<Rightarrow> jsstring \<Rightarrow> (jsstring \<times> paramValue) list \<Rightarrow>
     (jsstring \<times> jsstring) list \<Rightarrow> request list \<Rightarrow> (providerError + 'a) \<times> request list" where
  "apiGet co endpoint token params headers issued =
     (if \<not> isValidToken co token then (Inl (Error (i18n_t co ''provider.tokenRequired'')), issued)
      else
        (let url = buildUrl endpoint params;
             req = \<lparr>rq_url = fst url, rq_params = snd url, rq_method = js ''GET'',
                    rq_headers = foldl (\<lambda>acc (key, val). setParam key val acc)
                      [(js ''Accept'', js ''*/*''), (js ''X-API-KEY'', trim token)] headers\<rparr>
         in case requestUrl co req of
              Inl err \<Rightarrow> (Inl (handleApiError co err), issued @ [req])
            | Inr body \<Rightarrow> (Inr body, issued @ [req])))"

definition searchByQuery ::
  "('x, KinopoiskSuggestItemsResponse) collaborators \<Rightarrow> jsstring \<Rightarrow> jsstring \<Rightarrow> request list \<Rightarrow>
     (providerError + KinopoiskSuggestItem list) \<times> request list" where
  "searchByQuery co query token issued =
     (if \<not> isValidSearchQuery co query
      then (Inl (Error (i18n_t co ''provider.enterMovieTitle'')), issued)
      else
        (case apiGet co (js ''/movie/search'') token
                [(js ''query'', PStr (trim query)), (js ''limit'', PNum MAX_SEARCH_RESULTS)] [] issued of
           (Inl err, issued') \<Rightarrow> (Inl err, issued')
         | (Inr searchResults, issued') \<Rightarrow>
             (case docs searchResults of
                None \<Rightarrow>
                  (Inl (Error (i18n_tWithParams co ''provider.nothingFound'' [(''query'', query)] @
                               js '' '' @ i18n_t co ''provider.tryChangeQuery'')), issued')
              | Some ds \<Rightarrow>
                  if length ds = 0 then
                    (Inl (Error (i18n_tWithParams co ''provider.nothingFound'' [(''query'', query)] @
                                 js '' '' @ i18n_t co ''provider.tryChangeQuery'')), issued')
                  else (Inr ds, issued'))))"

text \<open>
  Modelled from the spec: the validator (\<open>ApiValidator\<close>), whose source is
  missing. A token, and a search query, is valid iff it is not empty once
  trimmed.
\<close>

definition specValidToken :: "jsstring \<Rightarrow> bool" where
  "specValidToken token \<longleftrightarrow> trim token \<noteq> []"

definition specValidSearchQuery :: "jsstring \<Rightarrow> bool" where
  "specValidSearchQuery query \<longleftrightarrow> trim query \<noteq> []"

text \<open>
  A set of collaborators to evaluate with: the validator of the spec, messages
  that are the key, followed for \<open>tWithParams\<close> by the values of the
  parameters, and a transport that answers with a fixed body.
\<close>

definition sampleCollaborators ::
  "KinopoiskSuggestItemsResponse \<Rightarrow> (unit, KinopoiskSuggestItemsResponse) collaborators" where
  "sampleCollaborators body =
     \<lparr>isValidToken = specValidToken,
      isValidSearchQuery = specValidSearchQuery,
      i18n_t = js,
      i18n_tWithParams = (\<lambda>key params. js key @ js '': '' @ concat (map snd params)),
      handleApiError = (\<lambda>err. Error (js ''network'')),
      requestUrl = (\<lambda>req. Inr body)\<rparr>"

section \<open>Notions of the specification\<close>

text \<open>
  An entity that the formatter keeps: its name is there and is not blank. A
  person of a role: the name is there and the role key is that role. The
  entities of a bucket that reach the output: the kept ones, up to the cap.
\<close>

definition named :: "entity \<Rightarrow> bool" where
  "named e \<longleftrightarrow> e_name e \<noteq> [] \<and> nonBlank (e_name e)"

definition hasRole :: "jsstring \<Rightarrow> KinopoiskPerson \<Rightarrow> bool" where
  "hasRole role person \<longleftrightarrow> truthy (p_name person) \<and> p_enProfession person = Some role"

definition shown :: "entity list \<Rightarrow> entity list" where
  "shown bucket = take MAX_ARRAY_ITEMS (filter named bucket)"

text \<open>
  The words of a string, its maximal runs of characters that are not white
  space, and the words joined by single spaces: what is left of a text once
  every run of white space is collapsed to one space and the ends are trimmed.
  \<open>rtrim\<close> removes the white space at the end.
\<close>

function wordsOf :: "jsstring \<Rightarrow> jsstring list" where
  "wordsOf s =
     (case dropWhile isWs s of
        [] \<Rightarrow> []
      | c # cs \<Rightarrow> (c # takeWhile (\<lambda>x. \<not> isWs x) cs) # wordsOf (dropWhile (\<lambda>x. \<not> isWs x) cs))"
  by pat_completeness auto
termination
proof (relation "measure length")
  fix s :: jsstring and c :: jschar and cs :: jsstring
  assume a: "dropWhile isWs s = c # cs"
  have "length (dropWhile (\<lambda>x. \<not> isWs x) cs) \<le> length cs"
    by (rule length_dropWhile_le)
  moreover have "length (c # cs) \<le> length s"
    using length_dropWhile_le [of isWs s] a by simp
  ultimately show "(dropWhile (\<lambda>x. \<not> isWs x) cs, s) \<in> measure length"
    by simp
qed simp

fun joinSp :: "jsstring list \<Rightarrow> jsstring" where
  "joinSp [] = []"
| "joinSp [w] = w"
| "joinSp (w # v # ws) = w @ [0x20] @ joinSp (v # ws)"

definition rtrim :: "jsstring \<Rightarrow> jsstring" where
  "rtrim s = rev (dropWhile isWs (rev s))"

text \<open>A payload and a configuration to evaluate the transformer on.\<close>

definition samplePerson :: "int option \<Rightarrow> jsstring option \<Rightarrow> jsstring option \<Rightarrow> KinopoiskPerson" where
  "samplePerson i n r =
     \<lparr>p_id = i, p_name = n, p_enName = None, p_description = None, p_profession = None,
      p_enProfession = r, p_photo = None\<rparr>"

definition sampleInfo :: KinopoiskFullInfo where
  "sampleInfo =
     \<lparr>fi_persons = Some
        [samplePerson (Some 1) (Some (js ''Nolan'')) (Some (js ''director'')),
         samplePerson (Some 7) (Some (js ''Doe'')) (Some (js ''actor'')),
         samplePerson (Some 8) None (Some (js ''actor'')),
         samplePerson (Some 9) (Some (js ''Smith'')) (Some (js ''editor'')),
         samplePerson None (Some (js ''Roe'')) (Some (js ''actor'')),
         samplePerson (Some 10) (Some (js '' '')) (Some (js ''actor''))],
      fi_seasonsInfo = None,
      fi_rating = Some \<lparr>r_kp = Some (17 / 2), r_imdb = None, r_filmCritics = None,
                        r_russianFilmCritics = None, r_await = None\<rparr>,
      fi_votes = None,
      fi_facts = Some
        [\<lparr>f_value = js ''<b>One</b> &amp; only'', f_type = js ''FACT'', f_spoiler = Some False\<rparr>,
         \<lparr>f_value = js ''Ending'', f_type = js ''FACT'', f_spoiler = Some True\<rparr>],
      fi_premiere = Some \<lparr>pr_world = Some (js ''1994-09-10''), pr_russia = Some (js ''soon''),
                          pr_digital = None, pr_cinema = Some []\<rparr>,
      fi_distributors = Some \<lparr>d_distributor = None, d_distributorRelease = Some (js ''soon'')\<rparr>\<rparr>"

definition sampleSettings :: settings where
  "sampleSettings =
     \<lparr>actorsPath = js ''actors'', directorsPath = js ''directors'', writersPath = [],
      producersPath = js '' ''\<rparr>"

text \<open>
  A payload with a rating that has a score of the first source only, and a list
  of facts with a spoiler and a blank one among eight.
\<close>

definition ratedInfo :: KinopoiskFullInfo where
  "ratedInfo =
     \<lparr>fi_persons = Some [], fi_seasonsInfo = None,
      fi_rating = Some \<lparr>r_kp = Some (17 / 2), r_imdb = None, r_filmCritics = None,
                        r_russianFilmCritics = None, r_await = None\<rparr>,
      fi_votes = None, fi_facts = None, fi_premiere = None, fi_distributors = None\<rparr>"

text \<open>A payload whose distributor release date and world premiere are one given string.\<close>

definition releaseInfo :: "jsstring \<Rightarrow> KinopoiskFullInfo" where
  "releaseInfo raw =
     \<lparr>fi_persons = Some [], fi_seasonsInfo = None, fi_rating = None, fi_votes = None,
      fi_facts = None,
      fi_premiere = Some \<lparr>pr_world = Some raw, pr_russia = None, pr_digital = None,
                          pr_cinema = None\<rparr>,
      fi_distributors = Some \<lparr>d_distributor = None, d_distributorRelease = Some raw\<rparr>\<rparr>"

definition sampleFacts :: "KinopoiskFact list" where
  "sampleFacts =
     [\<lparr>f_value = js ''one'', f_type = js ''FACT'', f_spoiler = None\<rparr>,
      \<lparr>f_value = js ''two'', f_type = js ''FACT'', f_spoiler = Some True\<rparr>,
      \<lparr>f_value = js '' '', f_type = js ''FACT'', f_spoiler = Some False\<rparr>,
      \<lparr>f_value = js ''three'', f_type = js ''FACT'', f_spoiler = Some False\<rparr>,
      \<lparr>f_value = js ''four'', f_type = js ''FACT'', f_spoiler = Some False\<rparr>,
      \<lparr>f_value = js ''five'', f_type = js ''FACT'', f_spoiler = Some False\<rparr>,
      \<lparr>f_value = js ''six'', f_type = js ''FACT'', f_spoiler = Some False\<rparr>,
      \<lparr>f_value = js ''seven'', f_type = js ''FACT'', f_spoiler = Some False\<rparr>]"

text \<open>
  The request that a search issues and the message of its empty result, as
  \<open>searchByQuery\<close> and \<open>apiGet\<close> build them.
\<close>

definition searchRequest :: "jsstring \<Rightarrow> jsstring \<Rightarrow> request" where
  "searchRequest query token =
     \<lparr>rq_url = API_BASE_URL @ js ''/movie/search'',
      rq_params = (if trim query \<noteq> [] then [(js ''query'', trim query)] else []) @
                  [(js ''limit'', js ''50'')],
      rq_method = js ''GET'',
      rq_headers = [(js ''Accept'', js ''*/*''), (js ''X-API-KEY'', trim token)]\<rparr>"

definition emptyResultMessage :: "('x, 'a) collaborators \<Rightarrow> jsstring \<Rightarrow> jsstring" where
  "emptyResultMessage co query =
     i18n_tWithParams co ''provider.nothingFound'' [(''query'', query)] @ js '' '' @
     i18n_t co ''provider.tryChangeQuery''"

definition sampleItem :: KinopoiskSuggestItem where
  "sampleItem =
     \<lparr>si_id = 301, si_name = js ''Matrix'', si_alternativeName = js ''The Matrix'',
      si_type = js ''movie'', si_year = 1999, si_poster = None, si_rating = None\<rparr>"

section \<open>The formatter on strings and on entities\<close>

lemma stringItems_Str: "stringItems (map Str xs) = Inr (map Str xs)"
  by (induction xs) simp_all

lemma filteredItems_Str: "filteredItems (map Str xs) = filter nonBlank xs"
  by (induction xs) simp_all

lemma keepNamed_Str: "keepNamed (map Str xs) = Inr []"
  by (induction xs) simp_all

lemma keepNamed_Obj: "keepNamed (map Obj es) = Inr (filter named es)"
  by (induction es) (simp_all add: named_def)

lemma stringItems_Obj:
  "stringItems (map Obj es) = Inr (map (\<lambda>e. if e_name e \<noteq> [] then Str (e_name e) else Obj e) es)"
  by (induction es) simp_all

lemma filteredItems_Obj:
  "filteredItems (map (\<lambda>e. if e_name e \<noteq> [] then Str (e_name e) else Obj e) es) =
     map e_name (filter named es)"
  by (induction es) (simp_all add: named_def)

lemma formatArray_Str:
  "formatArray (map Str xs) ft p c =
     Inr (if ft = LINK_ID_WITH_PATH then []
          else map (renderString ft p) (take c (filter nonBlank xs)))"
  by (simp add: formatArray_def keepNamed_Str stringItems_Str filteredItems_Str)

lemma formatArray_Obj:
  "formatArray (map Obj es) ft p c =
     Inr (map (\<lambda>e. if ft = LINK_ID_WITH_PATH then renderIdLink p e else renderString ft p (e_name e))
            (take c (filter named es)))"
  by (simp add: formatArray_def keepNamed_Obj stringItems_Obj filteredItems_Obj take_map)

lemma formatArray_Str1:
  "formatArray [Str x] ft p c =
     Inr (if ft = LINK_ID_WITH_PATH then []
          else map (renderString ft p) (take c (filter nonBlank [x])))"
  using formatArray_Str [of "[x]" ft p c] by simp

lemma createMovieShowFrom_eq:
  "createMovieShowFrom h st fullInfo =
     (let seasonsData = calculateSeasonsData (fi_seasonsInfo fullInfo);
          people = extractPeople (case fi_persons fullInfo of None \<Rightarrow> [] | Some ps \<Rightarrow> ps);
          factList = processFacts (case fi_facts fullInfo of None \<Rightarrow> [] | Some fs \<Rightarrow> fs);
          rating = fi_rating fullInfo;
          votes = fi_votes fullInfo;
          premiere = fi_premiere fullInfo;
          date = (\<lambda>d. map (renderString SHORT_VALUE None) (take MAX_ARRAY_ITEMS (filter nonBlank [d])))
      in
      Inr \<lparr>director = map (\<lambda>e. renderString SHORT_VALUE None (e_name e)) (shown (g_directors people)),
           directorsLinks = map (\<lambda>e. renderString LINK None (e_name e)) (shown (g_directors people)),
           directorsLinksWithPath =
             map (\<lambda>e. renderString LINK_WITH_PATH (map_option directorsPath st) (e_name e))
               (shown (g_directors people)),
           directorsIdsWithPath =
             map (renderIdLink (map_option directorsPath st)) (shown (g_directors people)),
           actors = map (\<lambda>e. renderString SHORT_VALUE None (e_name e)) (shown (g_actors people)),
           actorsLinks = map (\<lambda>e. renderString LINK None (e_name e)) (shown (g_actors people)),
           actorsLinksWithPath =
             map (\<lambda>e. renderString LINK_WITH_PATH (map_option actorsPath st) (e_name e))
               (shown (g_actors people)),
           actorsIdsWithPath =
             map (renderIdLink (map_option actorsPath st)) (shown (g_actors people)),
           writers = map (\<lambda>e. renderString SHORT_VALUE None (e_name e)) (shown (g_writers people)),
           writersLinks = map (\<lambda>e. renderString LINK None (e_name e)) (shown (g_writers people)),
           writersLinksWithPath =
             map (\<lambda>e. renderString LINK_WITH_PATH (map_option writersPath st) (e_name e))
               (shown (g_writers people)),
           writersIdsWithPath =
             map (renderIdLink (map_option writersPath st)) (shown (g_writers people)),
           producers = map (\<lambda>e. renderString SHORT_VALUE None (e_name e)) (shown (g_producers people)),
           producersLinks = map (\<lambda>e. renderString LINK None (e_name e)) (shown (g_producers people)),
           producersLinksWithPath =
             map (\<lambda>e. renderString LINK_WITH_PATH (map_option producersPath st) (e_name e))
               (shown (g_producers people)),
           producersIdsWithPath =
             map (renderIdLink (map_option producersPath st)) (shown (g_producers people)),
           seasonsCount = count seasonsData,
           seriesInSeasonCount = averageEpisodesPerSeason seasonsData,
           ratingKp =
             (if Option.bind rating r_kp \<noteq> None \<and> Option.bind rating r_kp \<noteq> Some 0
              then numberOfToFixed0 (Option.bind rating r_kp) else Num 0),
           ratingImdb =
             (if rating \<noteq> None then numberOfToFixed0 (Option.bind rating r_imdb) else Num 0),
           ratingFilmCritics = orZero (Option.bind rating r_filmCritics),
           ratingRussianFilmCritics = orZero (Option.bind rating r_russianFilmCritics),
           votesKp = orZero (Option.bind votes v_kp),
           votesImdb = orZero (Option.bind votes v_imdb),
           votesFilmCritics = orZero (Option.bind votes v_filmCritics),
           votesRussianFilmCritics = orZero (Option.bind votes v_russianFilmCritics),
           premiereWorld = date (formatDate h (Option.bind premiere pr_world)),
           premiereRussia = date (formatDate h (Option.bind premiere pr_russia)),
           premiereDigital = date (formatDate h (Option.bind premiere pr_digital)),
           premiereCinema = date (formatDate h (Option.bind premiere pr_cinema)),
           facts = map (renderString LONG_TEXT None) (take MAX_ARRAY_ITEMS (filter nonBlank factList)),
           distributorRelease =
             date (distributorReleaseItem h
                (Option.bind (fi_distributors fullInfo) d_distributorRelease))\<rparr>)"
  by (simp add: createMovieShowFrom_def Let_def andThen_def formatArray_Obj formatArray_Str
      formatArray_Str1 shown_def del: renderString.simps)

lemma foldl_total:
  "foldl (\<lambda>total season. total + episodesCount season) a ss = a + sum_list (map episodesCount ss)"
  by (induction ss arbitrary: a) simp_all

lemma seasons_example:
  "calculateSeasonsData
     (Some [\<lparr>s_number = 1, episodesCount = 10\<rparr>, \<lparr>s_number = 2, episodesCount = 10\<rparr>,
            \<lparr>s_number = 3, episodesCount = 11\<rparr>]) =
     \<lparr>count = 3, averageEpisodesPerSeason = 11\<rparr>"
  by code_simp

section \<open>White space\<close>

declare wordsOf.simps [simp del]

lemma isWs_space: "isWs 0x20"
  by (simp add: isWs_def)

lemma isWs_newline: "isWs 0x0A"
  by (simp add: isWs_def)

lemma collapseWs_map_newline:
  "collapseWs (map (\<lambda>c. if c = 0x0A then 0x20 else c) s) = collapseWs s"
proof (induction s rule: collapseWs.induct)
  case 1
  show ?case by simp
next
  case (2 c cs)
  have dw: "dropWhile isWs (map (\<lambda>c. if c = 0x0A then 0x20 else c) cs) =
      map (\<lambda>c. if c = 0x0A then 0x20 else c) (dropWhile isWs cs)"
    by (induction cs) (auto simp: isWs_space isWs_newline)
  show ?case
  proof (cases "isWs c")
    case True
    then show ?thesis using 2 dw by (auto simp: isWs_space)
  next
    case False
    then have "c \<noteq> 0x0A" using isWs_newline by auto
    then show ?thesis using 2 False by simp
  qed
qed

lemma collapseWs_word:
  "\<forall>x\<in>set w. \<not> isWs x \<Longrightarrow> collapseWs (w @ rest) = w @ collapseWs rest"
  by (induction w) simp_all

lemma collapseWs_hd: "collapseWs (dropWhile isWs s) = [] \<or> \<not> isWs (hd (collapseWs (dropWhile isWs s)))"
proof (cases "dropWhile isWs s")
  case Nil
  then show ?thesis by (simp del: dropWhile_eq_Nil_conv)
next
  case (Cons c cs)
  then have "\<not> isWs c" using hd_dropWhile [of isWs s] by auto
  then show ?thesis using Cons by simp
qed

lemma dropWhile_collapseWs:
  "dropWhile isWs (collapseWs s) = collapseWs (dropWhile isWs s)"
proof (cases s)
  case Nil
  then show ?thesis by simp
next
  case (Cons c cs)
  show ?thesis
  proof (cases "isWs c")
    case True
    have "dropWhile isWs (collapseWs (dropWhile isWs cs)) = collapseWs (dropWhile isWs cs)"
      using collapseWs_hd [of cs] by (cases "collapseWs (dropWhile isWs cs)") auto
    then show ?thesis using Cons True by (simp add: isWs_space)
  next
    case False
    then show ?thesis using Cons by simp
  qed
qed

lemma rtrim_all_ws: "\<forall>x\<in>set s. isWs x \<Longrightarrow> rtrim s = []"
  by (simp add: rtrim_def)

lemma rtrim_append:
  "rtrim (a @ b) = (if \<forall>x\<in>set b. isWs x then rtrim a else a @ rtrim b)"
  by (simp add: rtrim_def dropWhile_append)

lemma rtrim_word: "\<forall>x\<in>set w. \<not> isWs x \<Longrightarrow> rtrim w = w"
  by (cases w rule: rev_cases) (simp_all add: rtrim_def)

lemma rtrim_Nil_iff: "rtrim s = [] \<longleftrightarrow> (\<forall>x\<in>set s. isWs x)"
  by (auto simp: rtrim_def dropWhile_eq_Nil_conv)

lemma wordsOf_Nil: "dropWhile isWs s = [] \<Longrightarrow> wordsOf s = []"
  by (simp add: wordsOf.simps del: dropWhile_eq_Nil_conv)

lemma wordsOf_Cons:
  "dropWhile isWs s = c # cs \<Longrightarrow>
     wordsOf s = (c # takeWhile (\<lambda>x. \<not> isWs x) cs) # wordsOf (dropWhile (\<lambda>x. \<not> isWs x) cs)"
  by (simp add: wordsOf.simps)

lemma joinSp_Cons: "joinSp (w # ws) = (if ws = [] then w else w @ 0x20 # joinSp ws)"
  by (cases ws) simp_all

lemma wordsOf_words: "w \<in> set (wordsOf s) \<Longrightarrow> w \<noteq> [] \<and> (\<forall>x\<in>set w. \<not> isWs x)"
proof (induction s rule: wordsOf.induct)
  case (1 s)
  show ?case
  proof (cases "dropWhile isWs s")
    case Nil
    then show ?thesis using 1(2) by (simp add: wordsOf_Nil del: dropWhile_eq_Nil_conv)
  next
    case (Cons c cs)
    have c: "\<not> isWs c" using hd_dropWhile [of isWs s] Cons by auto
    from 1(2) wordsOf_Cons [OF Cons]
    have "w = c # takeWhile (\<lambda>x. \<not> isWs x) cs \<or> w \<in> set (wordsOf (dropWhile (\<lambda>x. \<not> isWs x) cs))"
      by simp
    then show ?thesis
    proof
      assume "w = c # takeWhile (\<lambda>x. \<not> isWs x) cs"
      then show ?thesis using c by (auto dest: set_takeWhileD)
    next
      assume "w \<in> set (wordsOf (dropWhile (\<lambda>x. \<not> isWs x) cs))"
      then show ?thesis by (rule 1(1) [OF Cons])
    qed
  qed
qed

lemma joinSp_Nil_iff: "[] \<notin> set ws \<Longrightarrow> joinSp ws = [] \<longleftrightarrow> ws = []"
  by (cases ws rule: joinSp.cases) auto

lemma joinSp_wordsOf_Nil_iff: "joinSp (wordsOf s) = [] \<longleftrightarrow> wordsOf s = []"
proof (rule joinSp_Nil_iff)
  show "[] \<notin> set (wordsOf s)"
  proof
    assume "[] \<in> set (wordsOf s)"
    from wordsOf_words [OF this] show False by simp
  qed
qed

lemma rtrim_collapse_words:
  "rtrim (collapseWs (dropWhile isWs s)) = joinSp (wordsOf s)"
proof (induction s rule: wordsOf.induct)
  case (1 s)
  show ?case
  proof (cases "dropWhile isWs s")
    case Nil
    then show ?thesis by (simp add: wordsOf_Nil rtrim_def del: dropWhile_eq_Nil_conv)
  next
    case (Cons c cs)
    define w where "w = c # takeWhile (\<lambda>x. \<not> isWs x) cs"
    define rest where "rest = dropWhile (\<lambda>x. \<not> isWs x) cs"
    have c: "\<not> isWs c" using hd_dropWhile [of isWs s] Cons by auto
    have w: "\<forall>x\<in>set w. \<not> isWs x"
      using c by (auto simp: w_def dest: set_takeWhileD)
    have split: "c # cs = w @ rest"
      by (simp add: w_def rest_def)
    have IH: "rtrim (collapseWs (dropWhile isWs rest)) = joinSp (wordsOf rest)"
      using 1 [OF Cons] by (simp add: rest_def)
    have words: "wordsOf s = w # wordsOf rest"
      using wordsOf_Cons [OF Cons] by (simp add: w_def rest_def)
    have col: "collapseWs (dropWhile isWs s) = w @ collapseWs rest"
      using Cons split collapseWs_word [OF w] by simp
    show ?thesis
    proof (cases rest)
      case Nil
      then show ?thesis
        using col words w by (simp add: wordsOf_Nil rtrim_word)
    next
      case (Cons x xs)
      have x: "isWs x"
      proof -
        have eq: "dropWhile (\<lambda>x. \<not> isWs x) cs = x # xs"
          using Cons by (simp add: rest_def)
        then have "dropWhile (\<lambda>x. \<not> isWs x) cs \<noteq> []" by simp
        from hd_dropWhile [OF this] show ?thesis by (simp add: eq)
      qed
      have cr: "collapseWs rest = 0x20 # collapseWs (dropWhile isWs rest)"
        using Cons x by simp
      show ?thesis
      proof (cases "wordsOf rest = []")
        case True
        then have "rtrim (collapseWs (dropWhile isWs rest)) = []" using IH by simp
        then have "\<forall>y\<in>set (collapseWs rest). isWs y"
          using cr by (simp add: rtrim_Nil_iff isWs_space)
        then have "rtrim (w @ collapseWs rest) = w"
          using w by (simp add: rtrim_append rtrim_word)
        then show ?thesis using col words True by simp
      next
        case False
        then have ne: "rtrim (collapseWs (dropWhile isWs rest)) \<noteq> []"
          using IH by (simp add: joinSp_wordsOf_Nil_iff)
        then have nall: "\<not> (\<forall>y\<in>set (collapseWs (dropWhile isWs rest)). isWs y)"
          by (simp add: rtrim_Nil_iff)
        have "rtrim ((w @ [0x20]) @ collapseWs (dropWhile isWs rest)) =
            (if \<forall>y\<in>set (collapseWs (dropWhile isWs rest)). isWs y then rtrim (w @ [0x20])
             else (w @ [0x20]) @ rtrim (collapseWs (dropWhile isWs rest)))"
          by (rule rtrim_append)
        then have "rtrim ((w @ [0x20]) @ collapseWs (dropWhile isWs rest)) =
            (w @ [0x20]) @ rtrim (collapseWs (dropWhile isWs rest))"
          by (simp only: nall if_False)
        then have "rtrim (w @ collapseWs rest) = w @ 0x20 # joinSp (wordsOf rest)"
          by (simp only: cr IH append_assoc append_Cons append_Nil)
        moreover have "joinSp (wordsOf s) = w @ 0x20 # joinSp (wordsOf rest)"
          by (simp only: words joinSp_Cons False if_False)
        ultimately show ?thesis by (simp only: col)
      qed
    qed
  qed
qed

lemma cleanLongText_words: "cleanLongText s = joinSp (wordsOf s)"
  by (simp add: cleanLongText_def trim_def collapseWs_map_newline dropWhile_collapseWs
      rtrim_collapse_words [unfolded rtrim_def])


lemma nonBlank_iff: "nonBlank s \<longleftrightarrow> (\<exists>x\<in>set s. \<not> isWs x)"
proof
  assume "nonBlank s"
  then show "\<exists>x\<in>set s. \<not> isWs x"
    by (auto simp: nonBlank_def trim_def dest: set_dropWhileD)
next
  assume "\<exists>x\<in>set s. \<not> isWs x"
  then have ne: "dropWhile isWs s \<noteq> []"
    by (simp add: dropWhile_eq_Nil_conv)
  then have "\<not> isWs (hd (dropWhile isWs s))"
    by (rule hd_dropWhile)
  then have "\<exists>x\<in>set (dropWhile isWs s). \<not> isWs x"
    using ne by (cases "dropWhile isWs s") auto
  then show "nonBlank s"
    by (simp add: nonBlank_def trim_def dropWhile_eq_Nil_conv)
qed

lemma wordsOf_Nil_iff: "wordsOf s = [] \<longleftrightarrow> \<not> nonBlank s"
proof (cases "dropWhile isWs s")
  case Nil
  then have "\<forall>x\<in>set s. isWs x" by (simp add: dropWhile_eq_Nil_conv)
  then show ?thesis using wordsOf_Nil [OF Nil] by (simp add: nonBlank_iff)
next
  case (Cons c cs)
  then have "dropWhile isWs s \<noteq> []" by simp
  then have "\<exists>x\<in>set s. \<not> isWs x" by (simp add: dropWhile_eq_Nil_conv)
  then show ?thesis using wordsOf_Cons [OF Cons] by (simp add: nonBlank_iff)
qed

lemma filter_dropWhile_ws:
  "filter (\<lambda>x. \<not> isWs x) (dropWhile isWs s) = filter (\<lambda>x. \<not> isWs x) s"
  by (induction s) simp_all

lemma filter_takeWhile_nonws:
  "filter (\<lambda>x. \<not> isWs x) (takeWhile (\<lambda>x. \<not> isWs x) s) = takeWhile (\<lambda>x. \<not> isWs x) s"
  by (induction s) simp_all

lemma concat_wordsOf: "concat (wordsOf s) = filter (\<lambda>x. \<not> isWs x) s"
proof (induction s rule: wordsOf.induct)
  case (1 s)
  show ?case
  proof (cases "dropWhile isWs s")
    case Nil
    then have "\<forall>x\<in>set s. isWs x" by (simp add: dropWhile_eq_Nil_conv)
    then have "filter (\<lambda>x. \<not> isWs x) s = []" by (simp add: filter_empty_conv)
    then show ?thesis using wordsOf_Nil [OF Nil] by simp
  next
    case (Cons c cs)
    have c: "\<not> isWs c" using hd_dropWhile [of isWs s] Cons by auto
    have IH: "concat (wordsOf (dropWhile (\<lambda>x. \<not> isWs x) cs)) =
        filter (\<lambda>x. \<not> isWs x) (dropWhile (\<lambda>x. \<not> isWs x) cs)"
      by (rule 1 [OF Cons])
    have "filter (\<lambda>x. \<not> isWs x) s = filter (\<lambda>x. \<not> isWs x) (c # cs)"
      using filter_dropWhile_ws [of s] by (simp only: Cons)
    also have "\<dots> = c # filter (\<lambda>x. \<not> isWs x)
        (takeWhile (\<lambda>x. \<not> isWs x) cs @ dropWhile (\<lambda>x. \<not> isWs x) cs)"
      using c by simp
    also have "\<dots> = c # takeWhile (\<lambda>x. \<not> isWs x) cs @
        filter (\<lambda>x. \<not> isWs x) (dropWhile (\<lambda>x. \<not> isWs x) cs)"
      by (simp only: filter_append filter_takeWhile_nonws)
    finally show ?thesis
      by (simp only: wordsOf_Cons [OF Cons] IH concat.simps append_Cons)
  qed
qed

lemma set_joinSp: "x \<in> set (joinSp ws) \<Longrightarrow> x = 0x20 \<or> (\<exists>w\<in>set ws. x \<in> set w)"
  by (induction ws rule: joinSp.induct) auto

lemma newline_not_in_words: "0x0A \<notin> set (joinSp (wordsOf s))"
proof
  assume "0x0A \<in> set (joinSp (wordsOf s))"
  from set_joinSp [OF this] obtain w where w: "w \<in> set (wordsOf s)" and x: "0x0A \<in> set w"
    by auto
  from wordsOf_words [OF w] x have "\<not> isWs 0x0A" by blast
  then show False by (simp add: isWs_newline)
qed

section \<open>Grouping and links\<close>

lemma role_names_distinct:
  "js ''director'' \<noteq> js ''actor''" "js ''director'' \<noteq> js ''writer''"
  "js ''director'' \<noteq> js ''producer''" "js ''actor'' \<noteq> js ''writer''"
  "js ''actor'' \<noteq> js ''producer''" "js ''writer'' \<noteq> js ''producer''"
  "js ''director'' \<noteq> []" "js ''actor'' \<noteq> []" "js ''writer'' \<noteq> []" "js ''producer'' \<noteq> []"
  by (simp_all add: js_def)

lemma pushPerson_step:
  "pushPerson acc p =
     \<lparr>g_directors = g_directors acc @ (if hasRole (js ''director'') p then [personData p] else []),
      g_actors = g_actors acc @ (if hasRole (js ''actor'') p then [personData p] else []),
      g_writers = g_writers acc @ (if hasRole (js ''writer'') p then [personData p] else []),
      g_producers = g_producers acc @ (if hasRole (js ''producer'') p then [personData p] else [])\<rparr>"
proof (cases "truthy (p_name p) \<and> truthy (p_enProfession p)")
  case False
  then have "\<not> hasRole r p" if "r \<noteq> []" for r
    using that by (auto simp: hasRole_def truthy_def)
  then show ?thesis
    using False role_names_distinct by (simp add: pushPerson_def)
next
  case True
  then obtain r where r: "p_enProfession p = Some r"
    by (cases "p_enProfession p") (auto simp: truthy_def)
  have h: "hasRole q p \<longleftrightarrow> r = q" for q
    using True r by (auto simp: hasRole_def)
  show ?thesis
    using True r role_names_distinct by (simp add: pushPerson_def h Let_def)
qed

lemma foldl_pushPerson:
  "foldl pushPerson acc persons =
     \<lparr>g_directors = g_directors acc @ map personData (filter (hasRole (js ''director'')) persons),
      g_actors = g_actors acc @ map personData (filter (hasRole (js ''actor'')) persons),
      g_writers = g_writers acc @ map personData (filter (hasRole (js ''writer'')) persons),
      g_producers = g_producers acc @ map personData (filter (hasRole (js ''producer'')) persons)\<rparr>"
proof (induction persons arbitrary: acc)
  case Nil
  show ?case by simp
next
  case (Cons p ps)
  show ?case
    by (simp only: foldl.simps Cons.IH) (simp add: pushPerson_step)
qed

lemma extractPeople_buckets:
  "extractPeople persons =
     \<lparr>g_directors = map personData (filter (hasRole (js ''director'')) persons),
      g_actors = map personData (filter (hasRole (js ''actor'')) persons),
      g_writers = map personData (filter (hasRole (js ''writer'')) persons),
      g_producers = map personData (filter (hasRole (js ''producer'')) persons)\<rparr>"
  by (simp add: extractPeople_def foldl_pushPerson)


lemma buckets_partition:
  "length (filter (hasRole (js ''director'')) ps) + length (filter (hasRole (js ''actor'')) ps) +
   length (filter (hasRole (js ''writer'')) ps) + length (filter (hasRole (js ''producer'')) ps) =
   length (filter (\<lambda>p. hasRole (js ''director'') p \<or> hasRole (js ''actor'') p \<or>
                        hasRole (js ''writer'') p \<or> hasRole (js ''producer'') p) ps)"
  using role_names_distinct by (induction ps) (auto simp: hasRole_def)

lemma renderIdLink_cases:
  "renderIdLink folderPath e =
     (if e_id e = None \<or> e_id e = Some 0
      then js ''\"[['' @ cleanTextForMetadata (e_name e) @ js '']]\"''
      else if pathGiven folderPath
      then js ''\"[['' @ the folderPath @ js ''/'' @ numToString (the (e_id e)) @ js ''|'' @
             cleanTextForMetadata (e_name e) @ js '']]\"''
      else js ''\"[['' @ numToString (the (e_id e)) @ js ''|'' @
             cleanTextForMetadata (e_name e) @ js '']]\"'')"
  by (cases "e_id e") (simp_all add: renderIdLink_def Let_def)

lemma formatArray_Obj1:
  "formatArray [Obj e] LINK_ID_WITH_PATH folderPath MAX_ARRAY_ITEMS =
     Inr (if named e then [renderIdLink folderPath e] else [])"
  using formatArray_Obj [of "[e]" LINK_ID_WITH_PATH folderPath MAX_ARRAY_ITEMS]
  by (simp add: MAX_ARRAY_ITEMS_def)

lemma nonBlank_not_Nil: "nonBlank s \<Longrightarrow> s \<noteq> []"
  by (auto simp: nonBlank_def trim_def)

section \<open>Ratings, caps and dates\<close>

lemma toFixed0_nearest: "\<bar>of_int (toFixed0 x) - x\<bar> \<le> 1 / 2"
proof (cases "x < 0")
  case True
  define n where "n = \<lfloor>- x + 1 / 2\<rfloor>"
  have a: "of_int n \<le> - x + 1 / 2"
    unfolding n_def by (rule of_int_floor_le)
  have b: "- x + 1 / 2 < of_int n + 1"
    unfolding n_def by linarith
  have "of_int (toFixed0 x) = - (of_int n :: rat)"
    using True by (simp add: toFixed0_def n_def)
  then show ?thesis using a b by linarith
next
  case False
  define n where "n = \<lfloor>x + 1 / 2\<rfloor>"
  have a: "of_int n \<le> x + 1 / 2"
    unfolding n_def by (rule of_int_floor_le)
  have b: "x + 1 / 2 < of_int n + 1"
    unfolding n_def by linarith
  have "of_int (toFixed0 x) = (of_int n :: rat)"
    using False by (simp add: toFixed0_def n_def)
  then show ?thesis using a b by linarith
qed

lemma toFixed0_zero: "toFixed0 0 = 0"
proof -
  have "\<lfloor>(1 :: rat) / 2\<rfloor> = 0"
    by (rule floor_unique) simp_all
  then show ?thesis by (simp add: toFixed0_def)
qed

lemma formatArray_length:
  "formatArray items formatType folderPath maxItems = Inr out \<Longrightarrow> length out \<le> maxItems"
  by (auto simp: formatArray_def split: if_splits sum.splits)

lemma processFacts_length:
  "length (processFacts fs) =
     min 5 (length (filter (\<lambda>fact. f_spoiler fact \<noteq> Some True \<and> nonBlank (f_value fact)) fs))"
proof -
  have "filter (\<lambda>fact. f_spoiler fact \<noteq> Some True \<and> f_value fact \<noteq> [] \<and> nonBlank (f_value fact)) fs =
      filter (\<lambda>fact. f_spoiler fact \<noteq> Some True \<and> nonBlank (f_value fact)) fs"
    by (rule filter_cong) (auto dest: nonBlank_not_Nil)
  then show ?thesis
    by (simp add: processFacts_def MAX_FACTS_COUNT_def min.commute)
qed

section \<open>The request of a search\<close>

lemma buildUrl_search:
  "buildUrl (js ''/movie/search'') [(js ''query'', PStr (trim query)), (js ''limit'', PNum MAX_SEARCH_RESULTS)] =
     (API_BASE_URL @ js ''/movie/search'',
      (if trim query \<noteq> [] then [(js ''query'', trim query)] else []) @ [(js ''limit'', js ''50'')])"
proof -
  have n: "numToString 50 = js ''50''"
    by code_simp
  have k: "js ''query'' \<noteq> js ''limit''"
    by (simp add: js_def)
  show ?thesis
    using k by (simp add: buildUrl_def MAX_SEARCH_RESULTS_def n)
qed

lemma apiGet_search:
  "apiGet co (js ''/movie/search'') token
       [(js ''query'', PStr (trim query)), (js ''limit'', PNum MAX_SEARCH_RESULTS)] [] issued =
     (if \<not> isValidToken co token then (Inl (Error (i18n_t co ''provider.tokenRequired'')), issued)
      else (case requestUrl co (searchRequest query token) of
              Inl err \<Rightarrow> Inl (handleApiError co err)
            | Inr body \<Rightarrow> Inr body,
            issued @ [searchRequest query token]))"
  by (simp add: apiGet_def buildUrl_search searchRequest_def Let_def split: sum.splits)

section \<open>The date text\<close>

lemma digit_not_T: "k < 10 \<Longrightarrow> (of_nat (48 + k) :: jschar) \<noteq> 0x54"
proof -
  assume "k < 10"
  then have "k \<in> {0, 1, 2, 3, 4, 5, 6, 7, 8, 9}" by auto
  then show ?thesis by auto
qed

lemma digitsOf_not_T: "c \<in> set (digitsOf n) \<Longrightarrow> c \<noteq> 0x54"
proof (induction n rule: digitsOf.induct)
  case (1 n)
  show ?case
  proof (cases "n < 10")
    case True
    then have "c = of_nat (48 + n)"
      using 1(2) by (subst (asm) digitsOf.simps) simp
    then show ?thesis using digit_not_T [OF True] by simp
  next
    case False
    then have "c \<in> set (digitsOf (n div 10)) \<or> c = of_nat (48 + n mod 10)"
      using 1(2) by (subst (asm) digitsOf.simps) auto
    then show ?thesis
    proof
      assume "c \<in> set (digitsOf (n div 10))"
      then show ?thesis by (rule 1(1) [OF False])
    next
      assume c: "c = of_nat (48 + n mod 10)"
      have "n mod 10 < 10" by simp
      from digit_not_T [OF this] show ?thesis by (simp add: c)
    qed
  qed
qed

lemma pad_not_T: "c \<in> set (pad w n) \<Longrightarrow> c \<noteq> 0x54"
  by (auto simp: pad_def dest: digitsOf_not_T)

section \<open>Properties\<close>

text \<open>
  C6. Season aggregation: the count is the length of the season list and the
  average is the total of the episode counts divided by the count, rounded up;
  both are 0 for an absent or empty list; the episode counts 10, 10, 11 give the
  count 3 and the average 11.
\<close>

theorem seasons_aggregation:
  "calculateSeasonsData None = \<lparr>count = 0, averageEpisodesPerSeason = 0\<rparr> \<and>
   calculateSeasonsData (Some []) = \<lparr>count = 0, averageEpisodesPerSeason = 0\<rparr> \<and>
   count (calculateSeasonsData (Some ss)) = int (length ss) \<and>
   averageEpisodesPerSeason (calculateSeasonsData (Some ss)) =
     (if ss = [] then 0
      else \<lceil>(of_int (sum_list (map episodesCount ss)) :: rat) / of_nat (length ss)\<rceil>) \<and>
   calculateSeasonsData
     (Some [\<lparr>s_number = 1, episodesCount = 10\<rparr>, \<lparr>s_number = 2, episodesCount = 10\<rparr>,
            \<lparr>s_number = 3, episodesCount = 11\<rparr>]) =
     \<lparr>count = 3, averageEpisodesPerSeason = 11\<rparr>"
proof (intro conjI)
  show "calculateSeasonsData None = \<lparr>count = 0, averageEpisodesPerSeason = 0\<rparr>"
    by (simp add: calculateSeasonsData_def)
  show "calculateSeasonsData (Some []) = \<lparr>count = 0, averageEpisodesPerSeason = 0\<rparr>"
    by (simp add: calculateSeasonsData_def)
  show "count (calculateSeasonsData (Some ss)) = int (length ss)"
    by (simp add: calculateSeasonsData_def Let_def)
  show "averageEpisodesPerSeason (calculateSeasonsData (Some ss)) =
     (if ss = [] then 0
      else \<lceil>(of_int (sum_list (map episodesCount ss)) :: rat) / of_nat (length ss)\<rceil>)"
    by (simp add: calculateSeasonsData_def Let_def foldl_total)
qed (rule seasons_example)

theorem seasons_aggregation_witness:
  "count (calculateSeasonsData (Some [\<lparr>s_number = 1, episodesCount = 7\<rparr>, \<lparr>s_number = 2, episodesCount = 8\<rparr>])) = 2 \<and>
   averageEpisodesPerSeason (calculateSeasonsData (Some [\<lparr>s_number = 1, episodesCount = 7\<rparr>, \<lparr>s_number = 2, episodesCount = 8\<rparr>])) =
     \<lceil>(15 :: rat) / 2\<rceil>"
  using seasons_aggregation [of "[\<lparr>s_number = 1, episodesCount = 7\<rparr>, \<lparr>s_number = 2, episodesCount = 8\<rparr>]"]
  by simp

text \<open>
  C2. \<open>formatArray\<close> returns the empty array on an empty collection, for every
  format type, folder path and cap, and never raises on strings: on any array of
  strings (and on any array of entities) it returns an array, in which the blank
  entries, and in the id-link mode the strings, which have no name, are left
  out. \<open>cleanTextForMetadata\<close> gives the empty string on the empty string.
\<close>

theorem formatArray_never_throws:
  "formatArray [] formatType folderPath maxItems = Inr [] \<and>
   formatArray (map Str xs) formatType folderPath maxItems =
     Inr (if formatType = LINK_ID_WITH_PATH then []
          else map (renderString formatType folderPath) (take maxItems (filter nonBlank xs))) \<and>
   formatArray (map Obj es) formatType folderPath maxItems =
     Inr (map (\<lambda>e. if formatType = LINK_ID_WITH_PATH then renderIdLink folderPath e
                    else renderString formatType folderPath (e_name e))
            (take maxItems (filter (\<lambda>e. e_name e \<noteq> [] \<and> nonBlank (e_name e)) es))) \<and>
   cleanTextForMetadata [] = []"
  using formatArray_Str [of "[]" formatType folderPath maxItems]
  by (simp add: formatArray_Str formatArray_Obj cleanTextForMetadata_def named_def [abs_def])


text \<open>
  C8. On a string that is not blank, the LONG_TEXT format gives the words of the
  string joined by single spaces (every run of white space, newlines included,
  collapsed to one space, none left at the ends) between one pair of double
  quotes: the output has no newline character and begins and ends with a double
  quote. The words keep every character that is not white space, in order.
\<close>

theorem long_text_format:
  "nonBlank s \<Longrightarrow>
     formatArray [Str s] LONG_TEXT folderPath MAX_ARRAY_ITEMS =
       Inr [js ''\"'' @ joinSp (wordsOf s) @ js ''\"''] \<and>
     wordsOf s \<noteq> [] \<and>
     (\<forall>w\<in>set (wordsOf s). w \<noteq> [] \<and> (\<forall>x\<in>set w. \<not> isWs x)) \<and>
     concat (wordsOf s) = filter (\<lambda>x. \<not> isWs x) s \<and>
     0x0A \<notin> set (js ''\"'' @ joinSp (wordsOf s) @ js ''\"'') \<and>
     hd (js ''\"'' @ joinSp (wordsOf s) @ js ''\"'') = 0x22 \<and>
     last (js ''\"'' @ joinSp (wordsOf s) @ js ''\"'') = 0x22"
proof -
  assume nb: "nonBlank s"
  have "formatArray [Str s] LONG_TEXT folderPath MAX_ARRAY_ITEMS =
      Inr [js ''\"'' @ joinSp (wordsOf s) @ js ''\"'']"
    using nb by (simp add: formatArray_Str1 MAX_ARRAY_ITEMS_def cleanLongText_words)
  moreover have "wordsOf s \<noteq> []"
    using nb by (simp add: wordsOf_Nil_iff)
  moreover have "\<forall>w\<in>set (wordsOf s). w \<noteq> [] \<and> (\<forall>x\<in>set w. \<not> isWs x)"
    using wordsOf_words by blast
  moreover have "0x0A \<notin> set (js ''\"'' @ joinSp (wordsOf s) @ js ''\"'')"
    using newline_not_in_words [of s] by (simp add: js_def)
  moreover have "hd (js ''\"'' @ joinSp (wordsOf s) @ js ''\"'') = 0x22"
    by (simp add: js_def)
  moreover have "last (js ''\"'' @ joinSp (wordsOf s) @ js ''\"'') = 0x22"
    by (simp add: js_def)
  ultimately show ?thesis
    using concat_wordsOf [of s] by blast
qed

theorem long_text_format_witness:
  "nonBlank [0x20, 0x61, 0x0A, 0x09, 0x62, 0x20] \<and>
   formatArray [Str [0x20, 0x61, 0x0A, 0x09, 0x62, 0x20]] LONG_TEXT None MAX_ARRAY_ITEMS =
     Inr [js ''\"a b\"'']"
proof -
  have nb: "nonBlank [0x20, 0x61, 0x0A, 0x09, 0x62, 0x20]"
    by code_simp
  have w: "js ''\"'' @ joinSp (wordsOf [0x20, 0x61, 0x0A, 0x09, 0x62, 0x20]) @ js ''\"'' = js ''\"a b\"''"
    by code_simp
  show ?thesis
    using nb long_text_format [OF nb, of None] by (simp only: w simp_thms)
qed


text \<open>
  C3. A person without a name or without a role key is skipped; every other
  person goes to the bucket of its role, director, actor, writer or producer, and
  to no other, and a person of any other role is dropped: each bucket lists, in
  the order of the input, the persons of its role. For each bucket the four
  representations, the plain names, the links, the links with a path and the
  links with an id, are the renderings of one list of entities, the named ones of
  the bucket up to the cap: they have the same length and position \<open>i\<close> of each
  renders entity \<open>i\<close> of that list. The transformer returns a record on every
  payload.
\<close>

theorem person_grouping:
  "let persons = (case fi_persons fullInfo of None \<Rightarrow> [] | Some ps \<Rightarrow> ps);
       people = extractPeople persons
   in g_directors people = map personData (filter (hasRole (js ''director'')) persons) \<and>
      g_actors people = map personData (filter (hasRole (js ''actor'')) persons) \<and>
      g_writers people = map personData (filter (hasRole (js ''writer'')) persons) \<and>
      g_producers people = map personData (filter (hasRole (js ''producer'')) persons) \<and>
      length (g_directors people) + length (g_actors people) + length (g_writers people) +
        length (g_producers people) =
        length (filter (\<lambda>p. hasRole (js ''director'') p \<or> hasRole (js ''actor'') p \<or>
                             hasRole (js ''writer'') p \<or> hasRole (js ''producer'') p) persons) \<and>
      (\<exists>m. createMovieShowFrom h st fullInfo = Inr m \<and>
        length (directorsLinks m) = length (director m) \<and>
        length (directorsLinksWithPath m) = length (director m) \<and>
        length (directorsIdsWithPath m) = length (director m) \<and>
        length (actorsLinks m) = length (actors m) \<and>
        length (actorsLinksWithPath m) = length (actors m) \<and>
        length (actorsIdsWithPath m) = length (actors m) \<and>
        length (writersLinks m) = length (writers m) \<and>
        length (writersLinksWithPath m) = length (writers m) \<and>
        length (writersIdsWithPath m) = length (writers m) \<and>
        length (producersLinks m) = length (producers m) \<and>
        length (producersLinksWithPath m) = length (producers m) \<and>
        length (producersIdsWithPath m) = length (producers m) \<and>
        director m = map (\<lambda>e. cleanTextForMetadata (e_name e)) (shown (g_directors people)) \<and>
        directorsLinks m =
          map (\<lambda>e. js ''\"[['' @ cleanTextForMetadata (e_name e) @ js '']]\"'') (shown (g_directors people)) \<and>
        directorsLinksWithPath m =
          map (\<lambda>e. renderString LINK_WITH_PATH (map_option directorsPath st) (e_name e)) (shown (g_directors people)) \<and>
        directorsIdsWithPath m = map (renderIdLink (map_option directorsPath st)) (shown (g_directors people)) \<and>
        actors m = map (\<lambda>e. cleanTextForMetadata (e_name e)) (shown (g_actors people)) \<and>
        actorsLinks m =
          map (\<lambda>e. js ''\"[['' @ cleanTextForMetadata (e_name e) @ js '']]\"'') (shown (g_actors people)) \<and>
        actorsLinksWithPath m =
          map (\<lambda>e. renderString LINK_WITH_PATH (map_option actorsPath st) (e_name e)) (shown (g_actors people)) \<and>
        actorsIdsWithPath m = map (renderIdLink (map_option actorsPath st)) (shown (g_actors people)) \<and>
        writers m = map (\<lambda>e. cleanTextForMetadata (e_name e)) (shown (g_writers people)) \<and>
        writersLinks m =
          map (\<lambda>e. js ''\"[['' @ cleanTextForMetadata (e_name e) @ js '']]\"'') (shown (g_writers people)) \<and>
        writersLinksWithPath m =
          map (\<lambda>e. renderString LINK_WITH_PATH (map_option writersPath st) (e_name e)) (shown (g_writers people)) \<and>
        writersIdsWithPath m = map (renderIdLink (map_option writersPath st)) (shown (g_writers people)) \<and>
        producers m = map (\<lambda>e. cleanTextForMetadata (e_name e)) (shown (g_producers people)) \<and>
        producersLinks m =
          map (\<lambda>e. js ''\"[['' @ cleanTextForMetadata (e_name e) @ js '']]\"'') (shown (g_producers people)) \<and>
        producersLinksWithPath m =
          map (\<lambda>e. renderString LINK_WITH_PATH (map_option producersPath st) (e_name e)) (shown (g_producers people)) \<and>
        producersIdsWithPath m = map (renderIdLink (map_option producersPath st)) (shown (g_producers people)))"
  by (simp add: Let_def createMovieShowFrom_eq extractPeople_buckets buckets_partition)


theorem person_grouping_witness:
  "map_sum id actors (createMovieShowFrom hostUTC (Some sampleSettings) sampleInfo) =
     Inr [js ''Doe'', js ''Roe''] \<and>
   map_sum id actorsIdsWithPath (createMovieShowFrom hostUTC (Some sampleSettings) sampleInfo) =
     Inr [js ''\"[[actors/7|Doe]]\"'', js ''\"[[Roe]]\"''] \<and>
   map_sum id director (createMovieShowFrom hostUTC (Some sampleSettings) sampleInfo) =
     Inr [js ''Nolan'']"
proof -
  from person_grouping [of sampleInfo hostUTC "Some sampleSettings"]
  obtain m where m: "createMovieShowFrom hostUTC (Some sampleSettings) sampleInfo = Inr m"
    and a: "actors m = map (\<lambda>e. cleanTextForMetadata (e_name e))
        (shown (g_actors (extractPeople (case fi_persons sampleInfo of None \<Rightarrow> [] | Some ps \<Rightarrow> ps))))"
    and b: "actorsIdsWithPath m = map (renderIdLink (map_option actorsPath (Some sampleSettings)))
        (shown (g_actors (extractPeople (case fi_persons sampleInfo of None \<Rightarrow> [] | Some ps \<Rightarrow> ps))))"
    and c: "director m = map (\<lambda>e. cleanTextForMetadata (e_name e))
        (shown (g_directors (extractPeople (case fi_persons sampleInfo of None \<Rightarrow> [] | Some ps \<Rightarrow> ps))))"
    unfolding Let_def by blast
  have a': "map (\<lambda>e. cleanTextForMetadata (e_name e))
        (shown (g_actors (extractPeople (case fi_persons sampleInfo of None \<Rightarrow> [] | Some ps \<Rightarrow> ps)))) =
      [js ''Doe'', js ''Roe'']"
    by code_simp
  have b': "map (renderIdLink (map_option actorsPath (Some sampleSettings)))
        (shown (g_actors (extractPeople (case fi_persons sampleInfo of None \<Rightarrow> [] | Some ps \<Rightarrow> ps)))) =
      [js ''\"[[actors/7|Doe]]\"'', js ''\"[[Roe]]\"'']"
    by code_simp
  have c': "map (\<lambda>e. cleanTextForMetadata (e_name e))
        (shown (g_directors (extractPeople (case fi_persons sampleInfo of None \<Rightarrow> [] | Some ps \<Rightarrow> ps)))) =
      [js ''Nolan'']"
    by code_simp
  show ?thesis
    by (simp only: m map_sum.simps id_apply a b c a' b' c' simp_thms)
qed

text \<open>
  C5, as amended. For an entity whose name is not blank, the LINK_ID_WITH_PATH
  format renders \<^verbatim>\<open>"[[path/Id|Name]]"\<close>, the name sanitized, when the path is
  given and not blank and the id is present and is not 0, \<^verbatim>\<open>"[[Id|Name]]"\<close>
  when the id is present and not 0 and no such path is given, and
  \<^verbatim>\<open>"[[Name]]"\<close> when there is no id or the id is 0.
\<close>

theorem link_id_with_path:
  "(nonBlank (e_name e) \<longrightarrow>
      formatArray [Obj e] LINK_ID_WITH_PATH folderPath MAX_ARRAY_ITEMS =
        Inr [if e_id e = None \<or> e_id e = Some 0
             then js ''\"[['' @ cleanTextForMetadata (e_name e) @ js '']]\"''
             else if folderPath \<noteq> None \<and> nonBlank (the folderPath)
             then js ''\"[['' @ the folderPath @ js ''/'' @ numToString (the (e_id e)) @ js ''|'' @
                    cleanTextForMetadata (e_name e) @ js '']]\"''
             else js ''\"[['' @ numToString (the (e_id e)) @ js ''|'' @
                    cleanTextForMetadata (e_name e) @ js '']]\"'']) \<and>
   formatArray [Obj \<lparr>e_name = js ''Doe'', e_id = Some 7\<rparr>] LINK_ID_WITH_PATH (Some (js ''actors''))
     MAX_ARRAY_ITEMS = Inr [js ''\"[[actors/7|Doe]]\"''] \<and>
   formatArray [Obj \<lparr>e_name = js ''Doe'', e_id = None\<rparr>] LINK_ID_WITH_PATH folderPath
     MAX_ARRAY_ITEMS = Inr [js ''\"[[Doe]]\"'']"
proof (intro conjI impI)
  assume nb: "nonBlank (e_name e)"
  then have n: "named e"
    by (simp add: named_def nonBlank_not_Nil)
  have p: "pathGiven folderPath \<longleftrightarrow> folderPath \<noteq> None \<and> nonBlank (the folderPath)"
    by (cases folderPath) (auto simp: pathGiven_def dest: nonBlank_not_Nil)
  show "formatArray [Obj e] LINK_ID_WITH_PATH folderPath MAX_ARRAY_ITEMS =
      Inr [if e_id e = None \<or> e_id e = Some 0
           then js ''\"[['' @ cleanTextForMetadata (e_name e) @ js '']]\"''
           else if folderPath \<noteq> None \<and> nonBlank (the folderPath)
           then js ''\"[['' @ the folderPath @ js ''/'' @ numToString (the (e_id e)) @ js ''|'' @
                  cleanTextForMetadata (e_name e) @ js '']]\"''
           else js ''\"[['' @ numToString (the (e_id e)) @ js ''|'' @
                  cleanTextForMetadata (e_name e) @ js '']]\"'']"
    by (simp only: formatArray_Obj1 n if_True renderIdLink_cases p)
next
  show "formatArray [Obj \<lparr>e_name = js ''Doe'', e_id = Some 7\<rparr>] LINK_ID_WITH_PATH
      (Some (js ''actors'')) MAX_ARRAY_ITEMS = Inr [js ''\"[[actors/7|Doe]]\"'']"
    by code_simp
next
  have n: "named \<lparr>e_name = js ''Doe'', e_id = None\<rparr>"
    by code_simp
  have c: "js ''\"[['' @ cleanTextForMetadata (js ''Doe'') @ js '']]\"'' = js ''\"[[Doe]]\"''"
    by code_simp
  show "formatArray [Obj \<lparr>e_name = js ''Doe'', e_id = None\<rparr>] LINK_ID_WITH_PATH folderPath
      MAX_ARRAY_ITEMS = Inr [js ''\"[[Doe]]\"'']"
    using c by (simp add: formatArray_Obj1 n renderIdLink_cases)
qed

theorem link_id_with_path_witness:
  "nonBlank (js ''Doe'') \<and>
   formatArray [Obj \<lparr>e_name = js ''Doe'', e_id = Some 7\<rparr>] LINK_ID_WITH_PATH None
     MAX_ARRAY_ITEMS = Inr [js ''\"[[7|Doe]]\"'']"
proof -
  have nb: "nonBlank (js ''Doe'')"
    by code_simp
  have e: "nonBlank (e_name \<lparr>e_name = js ''Doe'', e_id = Some 7\<rparr>)"
    using nb by simp
  have r: "js ''\"[['' @ numToString 7 @ js ''|'' @ cleanTextForMetadata (js ''Doe'') @ js '']]\"'' =
      js ''\"[[7|Doe]]\"''"
    by code_simp
  from link_id_with_path [of "\<lparr>e_name = js ''Doe'', e_id = Some 7\<rparr>" None] e
  have "formatArray [Obj \<lparr>e_name = js ''Doe'', e_id = Some 7\<rparr>] LINK_ID_WITH_PATH None
      MAX_ARRAY_ITEMS =
      Inr [js ''\"[['' @ numToString 7 @ js ''|'' @ cleanTextForMetadata (js ''Doe'') @ js '']]\"'']"
    by simp
  then show ?thesis
    using nb by (simp only: r simp_thms)
qed

text \<open>
  C5 as stated fails on an id of 0: the id is present, and with the path
  \<^verbatim>\<open>actors\<close> the entity Doe renders as \<^verbatim>\<open>"[[Doe]]"\<close>, not as
  \<^verbatim>\<open>"[[actors/0|Doe]]"\<close>.
\<close>

theorem link_id_zero_counterexample:
  "formatArray [Obj \<lparr>e_name = js ''Doe'', e_id = Some 0\<rparr>] LINK_ID_WITH_PATH (Some (js ''actors''))
     MAX_ARRAY_ITEMS = Inr [js ''\"[[Doe]]\"''] \<and>
   formatArray [Obj \<lparr>e_name = js ''Doe'', e_id = Some 0\<rparr>] LINK_ID_WITH_PATH (Some (js ''actors''))
     MAX_ARRAY_ITEMS \<noteq> Inr [js ''\"[[actors/0|Doe]]\"'']"
  by code_simp


text \<open>
  C1. The claim fails on the code for the second rating: on a payload whose
  rating object has no score of that source, \<open>ratingImdb\<close> is \<^verbatim>\<open>NaN\<close>, not 0.
  The test before the rounding is on the rating object, while the one of
  \<open>ratingKp\<close>, which is rounded to 9 from 8.5 here, is on the score.
\<close>

theorem rating_imdb_not_a_number:
  "map_sum id ratingImdb (createMovieShowFrom hostUTC None ratedInfo) = Inr NaN \<and>
   map_sum id ratingKp (createMovieShowFrom hostUTC None ratedInfo) = Inr (Num 9)"
  by code_simp

text \<open>
  C7. The array that \<open>formatArray\<close> returns is no longer than its cap, which is
  50 by default. \<open>processFacts\<close> keeps the facts that are no spoilers and not
  blank and then the first 5 of them, so its result has 5 elements when 5 or
  more facts are kept; the transformer gives it to \<open>formatArray\<close> with the
  default cap, and the facts of the output are at most 5.
\<close>

theorem array_caps:
  "(formatArray items formatType folderPath maxItems = Inr out \<longrightarrow> length out \<le> maxItems) \<and>
   (formatArray items formatType folderPath MAX_ARRAY_ITEMS = Inr out \<longrightarrow> length out \<le> 50) \<and>
   length (processFacts fs) =
     min 5 (length (filter (\<lambda>fact. f_spoiler fact \<noteq> Some True \<and> nonBlank (f_value fact)) fs)) \<and>
   (\<exists>m. createMovieShowFrom h st fullInfo = Inr m \<and>
      formatArray (map Str (processFacts (case fi_facts fullInfo of None \<Rightarrow> [] | Some fs \<Rightarrow> fs)))
        LONG_TEXT None MAX_ARRAY_ITEMS = Inr (facts m) \<and>
      length (facts m) \<le> 5)"
proof (intro conjI)
  show "formatArray items formatType folderPath maxItems = Inr out \<longrightarrow> length out \<le> maxItems"
    using formatArray_length by blast
  show "formatArray items formatType folderPath MAX_ARRAY_ITEMS = Inr out \<longrightarrow> length out \<le> 50"
    using formatArray_length [of items formatType folderPath MAX_ARRAY_ITEMS out]
    by (simp add: MAX_ARRAY_ITEMS_def)
  show "length (processFacts fs) =
     min 5 (length (filter (\<lambda>fact. f_spoiler fact \<noteq> Some True \<and> nonBlank (f_value fact)) fs))"
    by (rule processFacts_length)
  have "length (filter nonBlank (processFacts (case fi_facts fullInfo of None \<Rightarrow> [] | Some fs \<Rightarrow> fs))) \<le> 5"
    using length_filter_le [of nonBlank "processFacts (case fi_facts fullInfo of None \<Rightarrow> [] | Some fs \<Rightarrow> fs)"]
      processFacts_length [of "case fi_facts fullInfo of None \<Rightarrow> [] | Some fs \<Rightarrow> fs"]
    by simp
  then show "\<exists>m. createMovieShowFrom h st fullInfo = Inr m \<and>
      formatArray (map Str (processFacts (case fi_facts fullInfo of None \<Rightarrow> [] | Some fs \<Rightarrow> fs)))
        LONG_TEXT None MAX_ARRAY_ITEMS = Inr (facts m) \<and>
      length (facts m) \<le> 5"
    by (simp add: createMovieShowFrom_eq Let_def formatArray_Str del: renderString.simps)
qed

theorem array_caps_witness:
  "formatArray (map Str [js ''a'', js ''b'', js ''c'']) SHORT_VALUE None 2 = Inr [js ''a'', js ''b''] \<and>
   length [js ''a'', js ''b''] \<le> 2 \<and>
   length (processFacts sampleFacts) = 5"
proof -
  have a: "formatArray (map Str [js ''a'', js ''b'', js ''c'']) SHORT_VALUE None 2 = Inr [js ''a'', js ''b'']"
    by code_simp
  have b: "min 5 (length (filter (\<lambda>fact. f_spoiler fact \<noteq> Some True \<and> nonBlank (f_value fact)) sampleFacts)) = 5"
    by code_simp
  show ?thesis
    using a b array_caps [of "map Str [js ''a'', js ''b'', js ''c'']" SHORT_VALUE None 2
        "[js ''a'', js ''b'']" sampleFacts hostUTC None sampleInfo]
    by simp
qed

text \<open>
  C10, as amended. When the normalization of the distributor's release date
  gives the empty string, the raw string takes the place of the empty string as
  the element that is given to the SHORT_VALUE formatting, for the field
  \<open>distributorRelease\<close> only: the field holds the raw string with its colons
  removed and its ends trimmed when the raw string is not blank, and is empty
  when the raw string is blank or absent. A premiere field whose date fails the
  normalization is empty.
\<close>

theorem distributor_release_fallback:
  "\<exists>m. createMovieShowFrom h st fullInfo = Inr m \<and>
     (formatDate h (Option.bind (fi_distributors fullInfo) d_distributorRelease) = [] \<longrightarrow>
        formatArray
          [Str (case Option.bind (fi_distributors fullInfo) d_distributorRelease of
                  None \<Rightarrow> [] | Some raw \<Rightarrow> raw)]
          SHORT_VALUE None MAX_ARRAY_ITEMS = Inr (distributorRelease m) \<and>
        distributorRelease m =
          (case Option.bind (fi_distributors fullInfo) d_distributorRelease of
             None \<Rightarrow> []
           | Some raw \<Rightarrow>
               if nonBlank raw then [trim (filter (\<lambda>c. c \<noteq> 0x3A) raw)] else [])) \<and>
     (formatDate h (Option.bind (fi_premiere fullInfo) pr_world) = [] \<longrightarrow> premiereWorld m = []) \<and>
     (formatDate h (Option.bind (fi_premiere fullInfo) pr_russia) = [] \<longrightarrow> premiereRussia m = []) \<and>
     (formatDate h (Option.bind (fi_premiere fullInfo) pr_digital) = [] \<longrightarrow> premiereDigital m = []) \<and>
     (formatDate h (Option.bind (fi_premiere fullInfo) pr_cinema) = [] \<longrightarrow> premiereCinema m = [])"
proof -
  have blank: "\<not> nonBlank []"
    by (simp add: nonBlank_def trim_def)
  show ?thesis
    by (auto simp: createMovieShowFrom_eq Let_def formatArray_Str1 distributorReleaseItem_def
        orElse_def blank cleanTextForMetadata_def MAX_ARRAY_ITEMS_def split: option.splits)
qed

theorem distributor_release_fallback_witness:
  "formatDate hostUTC (Some (js ''12:00 soon'')) = [] \<and>
   nonBlank (js ''12:00 soon'') \<and>
   map_sum id distributorRelease (createMovieShowFrom hostUTC None (releaseInfo (js ''12:00 soon''))) =
     Inr [js ''1200 soon''] \<and>
   map_sum id premiereWorld (createMovieShowFrom hostUTC None (releaseInfo (js ''12:00 soon''))) =
     Inr []"
proof -
  have d: "Option.bind (fi_distributors (releaseInfo (js ''12:00 soon''))) d_distributorRelease =
      Some (js ''12:00 soon'')"
    by (simp add: releaseInfo_def)
  have w: "Option.bind (fi_premiere (releaseInfo (js ''12:00 soon''))) pr_world =
      Some (js ''12:00 soon'')"
    by (simp add: releaseInfo_def)
  have f: "formatDate hostUTC (Some (js ''12:00 soon'')) = []"
    by code_simp
  have nb: "nonBlank (js ''12:00 soon'')"
    by code_simp
  have c: "trim (filter (\<lambda>c. c \<noteq> 0x3A) (js ''12:00 soon'')) = js ''1200 soon''"
    by code_simp
  from distributor_release_fallback [of hostUTC None "releaseInfo (js ''12:00 soon'')"]
  obtain m where m: "createMovieShowFrom hostUTC None (releaseInfo (js ''12:00 soon'')) = Inr m"
    and dm: "distributorRelease m = [trim (filter (\<lambda>c. c \<noteq> 0x3A) (js ''12:00 soon''))]"
    and pm: "premiereWorld m = []"
    unfolding d w using f nb by auto
  show ?thesis
    by (simp add: f nb m dm pm c)
qed

text \<open>
  C10 as stated fails where the formatting changes the raw string: on a UTC host
  the release date \<^verbatim>\<open>12:00 soon\<close> fails the normalization and is emitted as
  \<^verbatim>\<open>1200 soon\<close>, not as it is, and the blank release date of one space gives
  an empty field.
\<close>

theorem distributor_release_raw_counterexample:
  "formatDate hostUTC (Some (js ''12:00 soon'')) = [] \<and>
   map_sum id distributorRelease (createMovieShowFrom hostUTC None (releaseInfo (js ''12:00 soon''))) =
     Inr [js ''1200 soon''] \<and>
   map_sum id distributorRelease (createMovieShowFrom hostUTC None (releaseInfo (js ''12:00 soon''))) \<noteq>
     Inr [js ''12:00 soon''] \<and>
   formatDate hostUTC (Some (js '' '')) = [] \<and>
   map_sum id distributorRelease (createMovieShowFrom hostUTC None (releaseInfo (js '' ''))) = Inr []"
  by code_simp

text \<open>
  C4. The claim fails on the code where local time is not UTC: the year that is
  tested is the one of local time, the date that is returned the one of UTC.
  Five hours west of UTC the date 1800-01-01, midnight UTC, is in the local year
  1799 and gives the empty string, and the date 2101-01-01 is in the local year
  2100 and is returned. On UTC both are as the claim says.
\<close>

theorem format_date_local_year:
  "formatDate hostWest5 (Some (js ''1800-01-01'')) = [] \<and>
   formatDate hostUTC (Some (js ''1800-01-01'')) = js ''1800-01-01'' \<and>
   formatDate hostWest5 (Some (js ''2101-01-01'')) = js ''2101-01-01'' \<and>
   formatDate hostUTC (Some (js ''2101-01-01'')) = []"
  by code_simp


text \<open>
  C9. A search whose query the validator rejects, or whose token the validator
  rejects, fails with the message of that rejection and issues no request. A
  search that passes both issues one request; when the transport answers with no
  documents, or with an empty list of them, the search fails with the message of
  the empty result, which is built from the query as it was given and contains it
  whenever the translation of \<^verbatim>\<open>provider.nothingFound\<close> contains its parameter;
  when the transport answers with documents the search returns that very list.
  A failure of the transport is passed through the error translator.
\<close>

theorem search_by_query:
  "(\<not> isValidSearchQuery co query \<longrightarrow>
      searchByQuery co query token issued =
        (Inl (Error (i18n_t co ''provider.enterMovieTitle'')), issued)) \<and>
   (isValidSearchQuery co query \<and> \<not> isValidToken co token \<longrightarrow>
      searchByQuery co query token issued =
        (Inl (Error (i18n_t co ''provider.tokenRequired'')), issued)) \<and>
   (isValidSearchQuery co query \<and> isValidToken co token \<longrightarrow>
      snd (searchByQuery co query token issued) = issued @ [searchRequest query token] \<and>
      fst (searchByQuery co query token issued) =
        (case requestUrl co (searchRequest query token) of
           Inl err \<Rightarrow> Inl (handleApiError co err)
         | Inr body \<Rightarrow>
             (case docs body of
                None \<Rightarrow> Inl (Error (emptyResultMessage co query))
              | Some ds \<Rightarrow> if ds = [] then Inl (Error (emptyResultMessage co query)) else Inr ds))) \<and>
   (sublist query (i18n_tWithParams co ''provider.nothingFound'' [(''query'', query)]) \<longrightarrow>
      sublist query (emptyResultMessage co query))"
proof (intro conjI impI)
  assume "\<not> isValidSearchQuery co query"
  then show "searchByQuery co query token issued =
      (Inl (Error (i18n_t co ''provider.enterMovieTitle'')), issued)"
    by (simp add: searchByQuery_def)
next
  assume "isValidSearchQuery co query \<and> \<not> isValidToken co token"
  then show "searchByQuery co query token issued =
      (Inl (Error (i18n_t co ''provider.tokenRequired'')), issued)"
    by (simp add: searchByQuery_def apiGet_search)
next
  assume v: "isValidSearchQuery co query \<and> isValidToken co token"
  then show "snd (searchByQuery co query token issued) = issued @ [searchRequest query token]"
    by (simp add: searchByQuery_def apiGet_search split: sum.splits option.splits)
  from v show "fst (searchByQuery co query token issued) =
      (case requestUrl co (searchRequest query token) of
         Inl err \<Rightarrow> Inl (handleApiError co err)
       | Inr body \<Rightarrow>
           (case docs body of
              None \<Rightarrow> Inl (Error (emptyResultMessage co query))
            | Some ds \<Rightarrow> if ds = [] then Inl (Error (emptyResultMessage co query)) else Inr ds))"
    by (simp add: searchByQuery_def apiGet_search emptyResultMessage_def
        split: sum.splits option.splits)
next
  assume "sublist query (i18n_tWithParams co ''provider.nothingFound'' [(''query'', query)])"
  then show "sublist query (emptyResultMessage co query)"
    by (simp add: emptyResultMessage_def sublist_append)
qed

theorem search_by_query_witness:
  "searchByQuery (sampleCollaborators \<lparr>docs = Some []\<rparr>) (js '' '') (js ''token'') [] =
     (Inl (Error (js ''provider.enterMovieTitle'')), []) \<and>
   searchByQuery (sampleCollaborators \<lparr>docs = Some []\<rparr>) (js ''matrix'') (js '' '') [] =
     (Inl (Error (js ''provider.tokenRequired'')), []) \<and>
   searchByQuery (sampleCollaborators \<lparr>docs = Some []\<rparr>) (js ''matrix'') (js ''token'') [] =
     (Inl (Error (js ''provider.nothingFound: matrix provider.tryChangeQuery'')),
      [searchRequest (js ''matrix'') (js ''token'')]) \<and>
   sublist (js ''matrix'') (js ''provider.nothingFound: matrix provider.tryChangeQuery'') \<and>
   searchByQuery (sampleCollaborators \<lparr>docs = Some [sampleItem]\<rparr>) (js ''matrix'') (js ''token'') [] =
     (Inr [sampleItem], [searchRequest (js ''matrix'') (js ''token'')])"
proof -
  let ?e = "sampleCollaborators \<lparr>docs = Some []\<rparr>"
  let ?f = "sampleCollaborators \<lparr>docs = Some [sampleItem]\<rparr>"
  have q0: "\<not> isValidSearchQuery ?e (js '' '')"
    by code_simp
  have q1: "isValidSearchQuery ?e (js ''matrix'')" "isValidSearchQuery ?f (js ''matrix'')"
    by code_simp+
  have t0: "\<not> isValidToken ?e (js '' '')"
    by code_simp
  have t1: "isValidToken ?e (js ''token'')" "isValidToken ?f (js ''token'')"
    by code_simp+
  have m: "emptyResultMessage ?e (js ''matrix'') =
      js ''provider.nothingFound: matrix provider.tryChangeQuery''"
    by code_simp
  have s: "sublist (js ''matrix'') (i18n_tWithParams ?e ''provider.nothingFound'' [(''query'', js ''matrix'')])"
    by code_simp
  have r: "requestUrl ?e (searchRequest (js ''matrix'') (js ''token'')) = Inr \<lparr>docs = Some []\<rparr>"
    "requestUrl ?f (searchRequest (js ''matrix'') (js ''token'')) = Inr \<lparr>docs = Some [sampleItem]\<rparr>"
    by (simp_all add: sampleCollaborators_def)
  have i: "i18n_t ?e = js"
    by (simp add: sampleCollaborators_def)
  show ?thesis
    using search_by_query [of ?e "js '' ''" "js ''token''" "[]"]
      search_by_query [of ?e "js ''matrix''" "js '' ''" "[]"]
      search_by_query [of ?e "js ''matrix''" "js ''token''" "[]"]
      search_by_query [of ?f "js ''matrix''" "js ''token''" "[]"]
      q0 q1 t0 t1 s
    by (simp add: m r i prod_eq_iff)
qed


section \<open>Further properties\<close>

text \<open>
  The rating fields on every payload: \<open>ratingKp\<close> is 0 when the score is absent
  or 0 and else the integer nearest to it (\<open>toFixed0\<close> is within a half of its
  argument); \<open>ratingImdb\<close> is 0 when there is no rating object, the integer
  nearest to the score when there is one, and \<^verbatim>\<open>NaN\<close> when the rating object has
  no such score; the two other ratings are the score, or 0 without one.
\<close>

theorem rating_fields:
  "\<bar>of_int (toFixed0 x) - x\<bar> \<le> 1 / 2 \<and>
   (\<exists>m. createMovieShowFrom h st fullInfo = Inr m \<and>
     ratingKp m =
       (case Option.bind (fi_rating fullInfo) r_kp of
          None \<Rightarrow> Num 0 | Some x \<Rightarrow> Num (of_int (toFixed0 x))) \<and>
     ratingImdb m =
       (case fi_rating fullInfo of
          None \<Rightarrow> Num 0
        | Some r \<Rightarrow> (case r_imdb r of None \<Rightarrow> NaN | Some x \<Rightarrow> Num (of_int (toFixed0 x)))) \<and>
     ratingFilmCritics m =
       (case Option.bind (fi_rating fullInfo) r_filmCritics of None \<Rightarrow> Num 0 | Some x \<Rightarrow> Num x) \<and>
     ratingRussianFilmCritics m =
       (case Option.bind (fi_rating fullInfo) r_russianFilmCritics of
          None \<Rightarrow> Num 0 | Some x \<Rightarrow> Num x))"
  using toFixed0_nearest [of x]
  by (auto simp: createMovieShowFrom_eq Let_def numberOfToFixed0_def orZero_def toFixed0_zero
      split: option.splits)

theorem rating_fields_witness:
  "map_sum id ratingKp (createMovieShowFrom hostUTC None sampleInfo) = Inr (Num 9) \<and>
   map_sum id ratingFilmCritics (createMovieShowFrom hostUTC None sampleInfo) = Inr (Num 0)"
proof -
  have k: "Option.bind (fi_rating sampleInfo) r_kp = Some (17 / 2)"
    and f: "Option.bind (fi_rating sampleInfo) r_filmCritics = None"
    by (simp_all add: sampleInfo_def)
  have r: "toFixed0 (17 / 2) = 9"
    by code_simp
  from rating_fields [of "17 / 2" hostUTC None sampleInfo]
  obtain m where "createMovieShowFrom hostUTC None sampleInfo = Inr m"
    and "ratingKp m = Num (of_int (toFixed0 (17 / 2)))" and "ratingFilmCritics m = Num 0"
    unfolding k f by auto
  then show ?thesis
    by (simp add: r)
qed

text \<open>
  Date normalization on a host whose local time is UTC: the empty string for an
  absent, empty or unparseable string and for a year outside 1800 to 2100, and
  else the year, the month and the day of the time value, padded with zeros and
  joined by hyphens. The examples of the specification hold there, and five
  hours west of UTC as well.
\<close>

theorem formatDate_utc:
  "localTZA h = (\<lambda>t. 0) \<Longrightarrow>
     formatDate h dateString =
       (if \<not> truthy dateString then []
        else
          (case newDate h (the dateString) of
             None \<Rightarrow> []
           | Some date \<Rightarrow>
               if YearFromTime date < 1800 \<or> 2100 < YearFromTime date then []
               else pad 4 (YearFromTime date) @ js ''-'' @ pad 2 (MonthFromTime date) @ js ''-'' @
                    pad 2 (DateFromTime date)))"
proof -
  assume utc: "localTZA h = (\<lambda>t. 0)"
  have iso: "takeWhile (\<lambda>c. c \<noteq> 0x54) (toISOString date) =
      pad 4 (YearFromTime date) @ js ''-'' @ pad 2 (MonthFromTime date) @ js ''-'' @
      pad 2 (DateFromTime date)"
    if y: "\<not> (YearFromTime date < 1800 \<or> 2100 < YearFromTime date)" for date
  proof -
    define D where "D = pad 4 (YearFromTime date) @ js ''-'' @ pad 2 (MonthFromTime date) @
        js ''-'' @ pad 2 (DateFromTime date)"
    have D: "\<forall>c\<in>set D. c \<noteq> 0x54"
      by (auto simp: D_def js_def dest: pad_not_T)
    obtain rest where "toISOString date = D @ 0x54 # rest"
      using y by (simp add: toISOString_def Let_def D_def js_def)
    then show ?thesis
      using D by (simp add: takeWhile_append2 D_def [symmetric])
  qed
  show ?thesis
  proof (cases "truthy dateString")
    case False
    then show ?thesis by (simp add: formatDate_def)
  next
    case True
    show ?thesis
    proof (cases "newDate h (the dateString)")
      case None
      then show ?thesis using True by (simp add: formatDate_def)
    next
      case (Some date)
      show ?thesis
      proof (cases "YearFromTime date < 1800 \<or> 2100 < YearFromTime date")
        case out: True
        then show ?thesis
          using True Some by (simp add: formatDate_def getFullYear_def utc)
      next
        case inside: False
        then show ?thesis
          using True Some iso [OF inside] by (simp add: formatDate_def getFullYear_def utc)
      qed
    qed
  qed
qed

theorem formatDate_utc_witness:
  "localTZA hostUTC = (\<lambda>t. 0) \<and>
   formatDate hostUTC (Some (js ''1994-09-10'')) = js ''1994-09-10'' \<and>
   formatDate hostUTC (Some (js ''not-a-date'')) = [] \<and>
   formatDate hostUTC (Some (js ''1700-06-15'')) = [] \<and>
   formatDate hostUTC None = []"
proof -
  have u: "localTZA hostUTC = (\<lambda>t. 0)"
    by (simp add: hostUTC_def)
  have a: "(if \<not> truthy (Some (js ''1994-09-10'')) then []
        else
          (case newDate hostUTC (the (Some (js ''1994-09-10''))) of
             None \<Rightarrow> []
           | Some date \<Rightarrow>
               if YearFromTime date < 1800 \<or> 2100 < YearFromTime date then []
               else pad 4 (YearFromTime date) @ js ''-'' @ pad 2 (MonthFromTime date) @ js ''-'' @
                    pad 2 (DateFromTime date))) = js ''1994-09-10''"
    by code_simp
  have b: "formatDate hostUTC (Some (js ''not-a-date'')) = []"
    "formatDate hostUTC (Some (js ''1700-06-15'')) = []" "formatDate hostUTC None = []"
    by code_simp+
  show ?thesis
    using u formatDate_utc [OF u, of "Some (js ''1994-09-10'')"] b by (simp only: a simp_thms)
qed

lemma formatDate_examples_west:
  "formatDate hostWest5 (Some (js ''1994-09-10'')) = js ''1994-09-10'' \<and>
   formatDate hostWest5 (Some (js ''not-a-date'')) = [] \<and>
   formatDate hostWest5 (Some (js ''1700-06-15'')) = []"
  by code_simp

end
